theory Spec2Isabelle
  imports Complex_Main "HOL-Library.Word"
begin

section \<open>Python values of a job payload\<close>

text \<open>
  A Python float is a finite double, an infinity or NaN. Every finite double is a rational
  number, so a finite float carries its exact value; the ordered comparisons of the
  handlers (\<open><\<close>, \<open>>\<close>) are exact on doubles, and any comparison with NaN is false.
\<close>

datatype pyfloat = Finite rat | PosInf | NegInf | NaN

datatype pyval =
    PNone
  | PBool bool
  | PInt int
  | PFloat pyfloat
  | PStr string
  | PList "pyval list"
  | PDict "(string \<times> pyval) list"

type_synonym pydict = "(string \<times> pyval) list"

text \<open>
  The handlers tell exceptions apart by class in one place only
  (\<open>except torch.cuda.OutOfMemoryError\<close>), and otherwise through \<open>str(e)\<close>. A
  \<open>pyexn\<close> is an instance of \<open>Exception\<close>, the class every \<open>except\<close> clause of
  the handlers names: its class, as far as the handlers look at it, and its message
  \<open>str(e)\<close>. What is raised outside \<open>Exception\<close> (\<open>KeyboardInterrupt\<close>,
  \<open>SystemExit\<close>) passes every \<open>except\<close> clause of the handlers and is not a value
  of this type: the statements below speak of instances of \<open>Exception\<close> only.
\<close>

datatype exn_class = CudaOutOfMemoryError | OtherException

datatype pyexn = PyExn exn_class string

fun exn_str :: "pyexn \<Rightarrow> string" where
  "exn_str (PyExn c m) = m"

fun exn_cls :: "pyexn \<Rightarrow> exn_class" where
  "exn_cls (PyExn c m) = c"

text \<open>A \<open>try\<close> around a computation on the module's globals: an exception that leaves
  the body is turned into a response by the \<open>except\<close> clauses; the globals stay as the
  body left them. Before they return, the clauses print \<open>str(e)\<close> and the traceback
  to the log, as the body prints its progress: the log is not part of the response and
  is left out.\<close>

definition catch_with :: "(pyexn \<Rightarrow> 'r) \<Rightarrow> (pyexn + 'r) \<times> 's \<Rightarrow> 'r \<times> 's" where
  "catch_with handle_exn r =
     (case r of
        (Inl e, st) \<Rightarrow> (handle_exn e, st)
      | (Inr response, st) \<Rightarrow> (response, st))"

definition bindE :: "pyexn + 'a \<Rightarrow> ('a \<Rightarrow> pyexn + 'b) \<Rightarrow> pyexn + 'b" where
  "bindE r f = (case r of Inl e \<Rightarrow> Inl e | Inr v \<Rightarrow> f v)"

fun flt_lt :: "pyfloat \<Rightarrow> pyfloat \<Rightarrow> bool" where
  "flt_lt NaN y = False"
| "flt_lt x NaN = False"
| "flt_lt (Finite a) (Finite b) = (a < b)"
| "flt_lt (Finite a) PosInf = True"
| "flt_lt (Finite a) NegInf = False"
| "flt_lt PosInf y = False"
| "flt_lt NegInf NegInf = False"
| "flt_lt NegInf y = True"

definition flt_gt :: "pyfloat \<Rightarrow> pyfloat \<Rightarrow> bool" where
  "flt_gt x y = flt_lt y x"

text \<open>The float literals of the handlers: \<open>0.5\<close> and \<open>1.0\<close> are doubles; the double
  nearest to \<open>0.85\<close> is \<open>7656119366529843 / 2^53\<close>.\<close>

definition lit_0_5 :: pyfloat where
  "lit_0_5 = Finite (1 / 2)"

definition lit_1_0 :: pyfloat where
  "lit_1_0 = Finite 1"

definition lit_0_85 :: pyfloat where
  "lit_0_85 = Finite (7656119366529843 / 9007199254740992)"

text \<open>Truth value of an object, as \<open>not x\<close> and \<open>if x\<close> compute it.\<close>

fun truthy :: "pyval \<Rightarrow> bool" where
  "truthy PNone = False"
| "truthy (PBool b) = b"
| "truthy (PInt i) = (i \<noteq> 0)"
| "truthy (PFloat (Finite q)) = (q \<noteq> 0)"
| "truthy (PFloat f) = True"
| "truthy (PStr s) = (s \<noteq> [])"
| "truthy (PList xs) = (xs \<noteq> [])"
| "truthy (PDict kvs) = (kvs \<noteq> [])"

fun type_name :: "pyval \<Rightarrow> string" where
  "type_name PNone = ''NoneType''"
| "type_name (PBool b) = ''bool''"
| "type_name (PInt i) = ''int''"
| "type_name (PFloat f) = ''float''"
| "type_name (PStr s) = ''str''"
| "type_name (PList xs) = ''list''"
| "type_name (PDict kvs) = ''dict''"

definition attribute_error :: "pyval \<Rightarrow> string \<Rightarrow> pyexn" where
  "attribute_error v a =
     PyExn OtherException
       ([CHR 0x27] @ type_name v @ [CHR 0x27] @ '' object has no attribute '' @
        [CHR 0x27] @ a @ [CHR 0x27])"

text \<open>\<open>d.get(k, default)\<close>: only a dict has the method. A dict is its list of items, a key
  bound once.\<close>

definition dict_get :: "pydict \<Rightarrow> string \<Rightarrow> pyval \<Rightarrow> pyval" where
  "dict_get kvs k dflt = (case map_of kvs k of None \<Rightarrow> dflt | Some v \<Rightarrow> v)"

fun py_get :: "pyval \<Rightarrow> string \<Rightarrow> pyval \<Rightarrow> pyexn + pyval" where
  "py_get (PDict kvs) k dflt = Inr (dict_get kvs k dflt)"
| "py_get v k dflt = Inl (attribute_error v ''get'')"

text \<open>\<open>s.lower()\<close>: only a str has the method. Strings are byte strings here (UTF-8); the
  ASCII letters are lowered, which is all that a comparison with an ASCII literal in lower
  case can see.\<close>

definition lower_char :: "char \<Rightarrow> char" where
  "lower_char c =
     (case map_of (zip ''ABCDEFGHIJKLMNOPQRSTUVWXYZ'' ''abcdefghijklmnopqrstuvwxyz'') c of
        None \<Rightarrow> c
      | Some l \<Rightarrow> l)"

definition str_lower :: "string \<Rightarrow> string" where
  "str_lower s = map lower_char s"

fun py_lower :: "pyval \<Rightarrow> pyexn + string" where
  "py_lower (PStr s) = Inr (str_lower s)"
| "py_lower v = Inl (attribute_error v ''lower'')"

subsection \<open>The builtins \<open>float\<close> and \<open>int\<close>\<close>

text \<open>
  \<open>float(x)\<close> is \<open>x\<close> for a float, \<open>0.0\<close> or \<open>1.0\<close> for a bool, and exact for an int
  up to \<open>2^53\<close>; \<open>int(x)\<close> is \<open>x\<close> for an int, truncates a finite float towards zero
  and raises on NaN and the infinities. What they do on the other arguments (parsing a
  str, rounding a large int, the TypeError for \<open>None\<close>, a list or a dict) is a
  parameter: the value, or the message of the exception raised.
\<close>

record builtins =
  float_conv :: "pyval \<Rightarrow> string + pyfloat"
  int_conv :: "pyval \<Rightarrow> string + int"
  elapsed :: pyfloat  \<comment> \<open>\<open>round(time.time() - start_time, 2)\<close>\<close>
  mkstemp :: "string \<Rightarrow> pyexn + string"
    \<comment> \<open>\<open>fd, path = tempfile.mkstemp(suffix=...); os.close(fd)\<close>: the path\<close>
  os_remove :: "string \<Rightarrow> pyexn + unit"
  quotient_conv :: "int \<Rightarrow> rat \<Rightarrow> string + int"
    \<comment> \<open>\<open>int(n / q)\<close> for a finite double \<open>q\<close>: the division rounds, and raises for \<open>0.0\<close>\<close>

definition conv_result :: "string + 'a \<Rightarrow> pyexn + 'a" where
  "conv_result r = (case r of Inl m \<Rightarrow> Inl (PyExn OtherException m) | Inr v \<Rightarrow> Inr v)"

fun py_float :: "'x builtins_scheme \<Rightarrow> pyval \<Rightarrow> pyexn + pyfloat" where
  "py_float B (PFloat f) = Inr f"
| "py_float B (PBool b) = Inr (Finite (if b then 1 else 0))"
| "py_float B (PInt i) =
     (if \<bar>i\<bar> \<le> 9007199254740992 then Inr (Finite (of_int i))
      else conv_result (float_conv B (PInt i)))"
| "py_float B v = conv_result (float_conv B v)"

definition trunc_rat :: "rat \<Rightarrow> int" where
  "trunc_rat q = (if 0 \<le> q then \<lfloor>q\<rfloor> else \<lceil>q\<rceil>)"

fun py_int :: "'x builtins_scheme \<Rightarrow> pyval \<Rightarrow> pyexn + int" where
  "py_int B (PInt i) = Inr i"
| "py_int B (PBool b) = Inr (if b then 1 else 0)"
| "py_int B (PFloat (Finite q)) = Inr (trunc_rat q)"
| "py_int B (PFloat NaN) = Inl (PyExn OtherException ''cannot convert float NaN to integer'')"
| "py_int B (PFloat f) =
     Inl (PyExn OtherException ''cannot convert float infinity to integer'')"
| "py_int B v = conv_result (int_conv B v)"

text \<open>
  \<open>int(n / ratio)\<close> for an int \<open>n\<close> the size of a double (an image dimension): the
  quotient by NaN is NaN, on which \<open>int\<close> raises; the quotient by an infinity is zero.
\<close>

fun int_of_quotient :: "'x builtins_scheme \<Rightarrow> int \<Rightarrow> pyfloat \<Rightarrow> pyexn + int" where
  "int_of_quotient B n NaN = py_int B (PFloat NaN)"
| "int_of_quotient B n PosInf = Inr 0"
| "int_of_quotient B n NegInf = Inr 0"
| "int_of_quotient B n (Finite q) = conv_result (quotient_conv B n q)"

subsection \<open>Base64\<close>

text \<open>
  \<open>base64.b64encode\<close> of the standard library (RFC 4648, standard alphabet, padded),
  and the decoder a client applies to the \<open>model_base64\<close> field. Three bytes make four
  characters of six bits each.
\<close>

type_synonym byte = "8 word"

definition b64_alphabet :: string where
  "b64_alphabet = ''ABCDEFGHIJKLMNOPQRSTUVWXYZabcdefghijklmnopqrstuvwxyz0123456789+/''"

definition b64_char :: "nat \<Rightarrow> char" where
  "b64_char i = b64_alphabet ! i"

fun b64encode :: "byte list \<Rightarrow> string" where
  "b64encode [] = []"
| "b64encode [a] =
     (let n = unat a * 16
      in [b64_char (n div 64), b64_char (n mod 64), CHR ''='', CHR ''=''])"
| "b64encode [a, b] =
     (let n = (unat a * 256 + unat b) * 4
      in [b64_char (n div 4096), b64_char (n div 64 mod 64), b64_char (n mod 64),
          CHR ''=''])"
| "b64encode (a # b # c # bs) =
     (let n = unat a * 65536 + unat b * 256 + unat c
      in b64_char (n div 262144) # b64_char (n div 4096 mod 64) #
         b64_char (n div 64 mod 64) # b64_char (n mod 64) # b64encode bs)"

fun index_of :: "'a \<Rightarrow> 'a list \<Rightarrow> nat option" where
  "index_of x [] = None"
| "index_of x (y # ys) =
     (if x = y then Some 0 else map_option Suc (index_of x ys))"

definition b64_index :: "char \<Rightarrow> nat option" where
  "b64_index c = index_of c b64_alphabet"

fun b64decode :: "string \<Rightarrow> byte list option" where
  "b64decode [] = Some []"
| "b64decode (c1 # c2 # c3 # c4 # cs) =
     (if cs = [] \<and> c4 = CHR ''='' then
        (if c3 = CHR ''='' then
           (case (b64_index c1, b64_index c2) of
              (Some i, Some j) \<Rightarrow> Some [of_nat ((i * 64 + j) div 16)]
            | _ \<Rightarrow> None)
         else
           (case (b64_index c1, b64_index c2, b64_index c3) of
              (Some i, Some j, Some k) \<Rightarrow>
                (let n = (i * 4096 + j * 64 + k) div 4
                 in Some [of_nat (n div 256), of_nat (n mod 256)])
            | _ \<Rightarrow> None))
      else
        (case (b64_index c1, b64_index c2, b64_index c3, b64_index c4) of
           (Some i, Some j, Some k, Some l) \<Rightarrow>
             (let n = i * 262144 + j * 4096 + k * 64 + l
              in map_option
                   (\<lambda>bs. of_nat (n div 65536) # of_nat (n div 256 mod 256) #
                         of_nat (n mod 256) # bs)
                   (b64decode cs))
         | _ \<Rightarrow> None))"
| "b64decode cs = None"

section \<open>The TripoSR handler (\<open>runpod-handler/handler.py\<close>)\<close>

text \<open>
  The calls into PIL, torch, the TSR package and the file system are parameters: each
  returns its value or the exception it raises. The image argument of
  \<open>tsr_open_image\<close> is the raw \<open>image\<close> value of the request;
  \<open>tsr_mesh_export\<close> is \<open>mesh.export(path, file_type=...)\<close> followed by reading the
  file back (\<open>open(output_path, "rb").read()\<close>): the bytes read.
\<close>

record ('i, 'me, 'c, 'm) triposr_env = builtins +
  tsr_open_image :: "pyval \<Rightarrow> pyexn + 'i"
  tsr_remove_background :: "'i \<Rightarrow> pyexn + 'i"
  tsr_resize_foreground :: "'i \<Rightarrow> pyfloat \<Rightarrow> pyexn + 'i"
  tsr_image_mode :: "'i \<Rightarrow> string"
  tsr_paste_on_white :: "'i \<Rightarrow> pyexn + 'i"
  tsr_convert_rgb :: "'i \<Rightarrow> pyexn + 'i"
  tsr_from_pretrained :: "pyexn + 'm"
  tsr_set_chunk_size :: "'m \<Rightarrow> int \<Rightarrow> pyexn + unit"
  tsr_to_cuda :: "'m \<Rightarrow> pyexn + unit"
  tsr_scene_codes :: "'m \<Rightarrow> 'i \<Rightarrow> pyexn + 'c"
  tsr_extract_mesh :: "'m \<Rightarrow> 'c \<Rightarrow> bool \<Rightarrow> int \<Rightarrow> pyexn + 'me list"
  tsr_count_vertices :: "'me \<Rightarrow> pyexn + int"
  tsr_count_faces :: "'me \<Rightarrow> pyexn + int"
  tsr_mesh_export :: "'me \<Rightarrow> string \<Rightarrow> string \<Rightarrow> pyexn + byte list"

text \<open>The module's global: \<open>model = None\<close>.\<close>

record 'm triposr_state =
  tsr_model :: "'m option"

definition triposr_load_model ::
  "('i, 'me, 'c, 'm) triposr_env \<Rightarrow> 'm triposr_state \<Rightarrow> (pyexn + 'm) \<times> 'm triposr_state"
where
  "triposr_load_model E st =
     (case tsr_model st of
        None \<Rightarrow>
          (case tsr_from_pretrained E of
             Inl e \<Rightarrow> (Inl e, st)
           | Inr m \<Rightarrow>
               (bindE (tsr_set_chunk_size E m 8192) (\<lambda>_.
                bindE (tsr_to_cuda E m) (\<lambda>_. Inr m)),
                st\<lparr>tsr_model := Some m\<rparr>))
      | Some m \<Rightarrow> (Inr m, st))"

definition preprocess_image ::
  "('i, 'me, 'c, 'm) triposr_env \<Rightarrow> 'i \<Rightarrow> pyfloat \<Rightarrow> pyexn + 'i"
where
  "preprocess_image E img foreground_ratio =
     bindE (tsr_remove_background E img) (\<lambda>img.
     bindE (tsr_resize_foreground E img foreground_ratio) (\<lambda>img.
       if tsr_image_mode E img = ''RGBA'' then tsr_paste_on_white E img
       else if tsr_image_mode E img \<noteq> ''RGB'' then tsr_convert_rgb E img
       else Inr img))"

definition generate_mesh ::
  "('i, 'me, 'c, 'm) triposr_env \<Rightarrow> 'i \<Rightarrow> int \<Rightarrow> 'm triposr_state \<Rightarrow>
   (pyexn + 'me) \<times> 'm triposr_state"
where
  "generate_mesh E img mc_resolution st =
     (case triposr_load_model E st of
        (Inl e, st') \<Rightarrow> (Inl e, st')
      | (Inr tsr, st') \<Rightarrow>
          (bindE (tsr_scene_codes E tsr img) (\<lambda>scene_codes.
           bindE (tsr_extract_mesh E tsr scene_codes True mc_resolution) (\<lambda>meshes.
             case meshes of
               [] \<Rightarrow> Inl (PyExn OtherException ''list index out of range'')
             | mesh # _ \<Rightarrow> Inr mesh)),
           st'))"

definition export_mesh ::
  "('i, 'me, 'c, 'm) triposr_env \<Rightarrow> 'me \<Rightarrow> string \<Rightarrow> pyexn + string \<times> byte list"
where
  "export_mesh E mesh output_format =
     bindE (mkstemp E (if output_format = ''glb'' then ''.glb'' else ''.obj'')) (\<lambda>output_path.
     bindE (tsr_mesh_export E mesh output_path
              (if output_format = ''glb'' then ''glb'' else ''obj'')) (\<lambda>mesh_data.
       Inr (output_path, mesh_data)))"

definition no_image_error :: pydict where
  "no_image_error =
     [(''error'',
       PStr ''No image provided. Include 'image' key with base64 encoded image.'')]"

definition decode_error :: "pyexn \<Rightarrow> pydict" where
  "decode_error e = [(''error'', PStr (''Failed to decode image: '' @ exn_str e))]"

definition triposr_response ::
  "byte list \<Rightarrow> int \<Rightarrow> int \<Rightarrow> string \<Rightarrow> pyfloat \<Rightarrow> pydict"
where
  "triposr_response mesh_data vertices faces output_format execution_time =
     (let file_size = int (length mesh_data) in
      if file_size < 5 * 1024 * 1024 then
        [(''model_base64'', PStr (b64encode mesh_data)),
         (''file_size'', PInt file_size),
         (''vertices'', PInt vertices),
         (''faces'', PInt faces),
         (''format'', PStr output_format),
         (''execution_time'', PFloat execution_time)]
      else
        [(''model_base64'', PStr (b64encode mesh_data)),
         (''file_size'', PInt file_size),
         (''vertices'', PInt vertices),
         (''faces'', PInt faces),
         (''format'', PStr output_format),
         (''execution_time'', PFloat execution_time),
         (''warning'',
          PStr ''Large file returned as base64. Consider using S3 for production.'')])"

text \<open>Lines 138 to 143: the request's parameters, converted in the order of the source.\<close>

definition triposr_params ::
  "('i, 'me, 'c, 'm) triposr_env \<Rightarrow> pyval \<Rightarrow> pyexn + pyval \<times> pyfloat \<times> int \<times> string"
where
  "triposr_params E event =
     bindE (py_get event ''input'' (PDict [])) (\<lambda>input_data.
     bindE (py_get input_data ''image'' PNone) (\<lambda>image_b64.
     bindE (py_get input_data ''foreground_ratio'' (PFloat lit_0_85)) (\<lambda>fr.
     bindE (py_float E fr) (\<lambda>foreground_ratio.
     bindE (py_get input_data ''mc_resolution'' (PInt 256)) (\<lambda>mc.
     bindE (py_int E mc) (\<lambda>mc_resolution.
     bindE (py_get input_data ''output_format'' (PStr ''glb'')) (\<lambda>fmt.
     bindE (py_lower fmt) (\<lambda>output_format.
       Inr (image_b64, foreground_ratio, mc_resolution, output_format)))))))))"

text \<open>Lines 160 to 221: decoding (in its own \<open>try\<close>), the pipeline and the response.\<close>

definition triposr_run ::
  "('i, 'me, 'c, 'm) triposr_env \<Rightarrow> pyval \<Rightarrow> pyfloat \<Rightarrow> int \<Rightarrow> string \<Rightarrow> 'm triposr_state \<Rightarrow>
   (pyexn + pydict) \<times> 'm triposr_state"
where
  "triposr_run E image_b64 foreground_ratio mc_resolution output_format st =
     (case tsr_open_image E image_b64 of
        Inl e \<Rightarrow> (Inr (decode_error e), st)
      | Inr img \<Rightarrow>
          (case preprocess_image E img foreground_ratio of
             Inl e \<Rightarrow> (Inl e, st)
           | Inr processed_image \<Rightarrow>
               (case generate_mesh E processed_image mc_resolution st of
                  (Inl e, st') \<Rightarrow> (Inl e, st')
                | (Inr mesh, st') \<Rightarrow>
                    (bindE (tsr_count_vertices E mesh) (\<lambda>vertices.
                     bindE (tsr_count_faces E mesh) (\<lambda>faces.
                     bindE (export_mesh E mesh output_format) (\<lambda>(output_path, mesh_data).
                     bindE (os_remove E output_path) (\<lambda>_.
                       Inr (triposr_response mesh_data vertices faces output_format
                              (elapsed E)))))),
                     st'))))"

text \<open>Lines 135 to 221: the body of the \<open>try\<close>.\<close>

definition triposr_body ::
  "('i, 'me, 'c, 'm) triposr_env \<Rightarrow> pyval \<Rightarrow> 'm triposr_state \<Rightarrow>
   (pyexn + pydict) \<times> 'm triposr_state"
where
  "triposr_body E event st =
     (case triposr_params E event of
        Inl e \<Rightarrow> (Inl e, st)
      | Inr (image_b64, foreground_ratio, mc_resolution, output_format) \<Rightarrow>
          if \<not> truthy image_b64 then (Inr no_image_error, st)
          else
            triposr_run E image_b64
              (if flt_lt foreground_ratio lit_0_5 \<or> flt_gt foreground_ratio lit_1_0
               then lit_0_85 else foreground_ratio)
              (if mc_resolution \<notin> set [128, 256, 512] then 256 else mc_resolution)
              (if output_format \<notin> set [''glb'', ''obj''] then ''glb'' else output_format)
              st)"

text \<open>Lines 223 to 231: the two \<open>except\<close> clauses.\<close>

definition triposr_except :: "pyexn \<Rightarrow> pydict" where
  "triposr_except e =
     (if exn_cls e = CudaOutOfMemoryError then
        [(''error'', PStr ''GPU out of memory. Try a lower resolution (128 or 256).'')]
      else [(''error'', PStr (''Generation failed: '' @ exn_str e))])"

definition triposr_handler ::
  "('i, 'me, 'c, 'm) triposr_env \<Rightarrow> pyval \<Rightarrow> 'm triposr_state \<Rightarrow> pydict \<times> 'm triposr_state"
where
  "triposr_handler E event st = catch_with triposr_except (triposr_body E event st)"

section \<open>The SF3D handler (\<open>runpod-handler-sf3d/handler.py\<close>)\<close>

text \<open>
  \<open>sf_import_modules\<close> is lines 39 to 59 of \<open>lazy_import\<close> (the directory listing
  and the imports); \<open>sf_open_image\<close> is the body of the inner \<open>try\<close>
  (\<open>b64decode\<close>, \<open>Image.open\<close>, \<open>convert("RGBA")\<close>). For
  \<open>resize_foreground\<close>, \<open>sf_crop_to_alpha\<close> is lines 105 to 109 (the crop to the
  bounding box of the alpha channel), \<open>sf_image_size\<close> is \<open>image.size\<close>,
  \<open>sf_new_image\<close> is \<open>Image.new("RGBA", (n, n), (255, 255, 255, 0))\<close> and
  \<open>sf_paste\<close> is \<open>new_image.paste(image, paste_pos)\<close>, returning the image pasted
  into.
\<close>

record ('i, 'me, 'm, 's) sf3d_env = builtins +
  sf_import_modules :: "pyexn + unit"
  sf_from_pretrained :: "pyexn + 'm"
  sf_to_cuda :: "'m \<Rightarrow> pyexn + unit"
  sf_eval :: "'m \<Rightarrow> pyexn + unit"
  sf_new_session :: "string \<Rightarrow> pyexn + 's"
  sf_remove :: "'i \<Rightarrow> 's \<Rightarrow> pyexn + 'i"
  sf_open_image :: "pyval \<Rightarrow> pyexn + 'i"
  sf_crop_to_alpha :: "'i \<Rightarrow> pyexn + 'i"
  sf_image_size :: "'i \<Rightarrow> int \<times> int"
  sf_new_image :: "int \<Rightarrow> pyexn + 'i"
  sf_paste :: "'i \<Rightarrow> 'i \<Rightarrow> int \<times> int \<Rightarrow> pyexn + 'i"
  sf_run_image :: "'m \<Rightarrow> 'i \<Rightarrow> int \<Rightarrow> string option \<Rightarrow> pyexn + 'me"
  sf_mesh_export :: "'me \<Rightarrow> string \<Rightarrow> pyexn + byte list"

text \<open>The module's globals. \<open>SF3D\<close>, \<open>remove\<close> and \<open>new_session\<close> are assigned
  together (lines 60 to 62): \<open>sf_imported\<close> is \<open>SF3D is not None\<close>.\<close>

record ('m, 's) sf3d_state =
  sf_model :: "'m option"
  sf_rembg_session :: "'s option"
  sf_imported :: bool

definition sf3d_lazy_import ::
  "('i, 'me, 'm, 's) sf3d_env \<Rightarrow> ('m, 's) sf3d_state \<Rightarrow>
   (pyexn + unit) \<times> ('m, 's) sf3d_state"
where
  "sf3d_lazy_import E st =
     (if \<not> sf_imported st then
        (case sf_import_modules E of
           Inl e \<Rightarrow> (Inl e, st)
         | Inr _ \<Rightarrow> (Inr (), st\<lparr>sf_imported := True\<rparr>))
      else (Inr (), st))"

definition sf3d_load_model ::
  "('i, 'me, 'm, 's) sf3d_env \<Rightarrow> ('m, 's) sf3d_state \<Rightarrow>
   (pyexn + 'm) \<times> ('m, 's) sf3d_state"
where
  "sf3d_load_model E st =
     (case sf3d_lazy_import E st of
        (Inl e, st1) \<Rightarrow> (Inl e, st1)
      | (Inr _, st1) \<Rightarrow>
          (case sf_model st1 of
             None \<Rightarrow>
               (case sf_from_pretrained E of
                  Inl e \<Rightarrow> (Inl e, st1)
                | Inr m \<Rightarrow>
                    (case bindE (sf_to_cuda E m) (\<lambda>_.
                          bindE (sf_eval E m) (\<lambda>_. sf_new_session E ''u2net'')) of
                       Inl e \<Rightarrow> (Inl e, st1\<lparr>sf_model := Some m\<rparr>)
                     | Inr session \<Rightarrow>
                         (Inr m, st1\<lparr>sf_model := Some m, sf_rembg_session := Some session\<rparr>)))
           | Some m \<Rightarrow> (Inr m, st1)))"

definition sf3d_remove_background ::
  "('i, 'me, 'm, 's) sf3d_env \<Rightarrow> 'i \<Rightarrow> ('m, 's) sf3d_state \<Rightarrow>
   (pyexn + 'i) \<times> ('m, 's) sf3d_state"
where
  "sf3d_remove_background E img st =
     (case sf3d_lazy_import E st of
        (Inl e, st1) \<Rightarrow> (Inl e, st1)
      | (Inr _, st1) \<Rightarrow>
          (case sf_rembg_session st1 of
             None \<Rightarrow>
               (case sf_new_session E ''u2net'' of
                  Inl e \<Rightarrow> (Inl e, st1)
                | Inr session \<Rightarrow>
                    (sf_remove E img session, st1\<lparr>sf_rembg_session := Some session\<rparr>))
           | Some session \<Rightarrow> (sf_remove E img session, st1)))"

text \<open>Lines 99 to 122.\<close>

definition sf3d_resize_foreground ::
  "('i, 'me, 'm, 's) sf3d_env \<Rightarrow> 'i \<Rightarrow> pyfloat \<Rightarrow> pyexn + 'i"
where
  "sf3d_resize_foreground E img ratio =
     bindE (sf_crop_to_alpha E img) (\<lambda>img.
     bindE (int_of_quotient E
              (max (fst (sf_image_size E img)) (snd (sf_image_size E img))) ratio)
       (\<lambda>new_size.
     bindE (sf_new_image E new_size) (\<lambda>new_image.
       sf_paste E new_image img
         ((new_size - fst (sf_image_size E img)) div 2,
          (new_size - snd (sf_image_size E img)) div 2))))"

definition sf3d_response :: "byte list \<Rightarrow> int \<Rightarrow> pyfloat \<Rightarrow> pydict" where
  "sf3d_response mesh_data texture_resolution execution_time =
     [(''model_base64'', PStr (b64encode mesh_data)),
      (''file_size'', PInt (int (length mesh_data))),
      (''format'', PStr ''glb''),
      (''texture_resolution'', PInt texture_resolution),
      (''execution_time'', PFloat execution_time)]"

text \<open>Lines 143 to 148.\<close>

definition sf3d_params ::
  "('i, 'me, 'm, 's) sf3d_env \<Rightarrow> pyval \<Rightarrow> pyexn + pyval \<times> pyfloat \<times> int \<times> string"
where
  "sf3d_params E event =
     bindE (py_get event ''input'' (PDict [])) (\<lambda>input_data.
     bindE (py_get input_data ''image'' PNone) (\<lambda>image_b64.
     bindE (py_get input_data ''foreground_ratio'' (PFloat lit_0_85)) (\<lambda>fr.
     bindE (py_float E fr) (\<lambda>foreground_ratio.
     bindE (py_get input_data ''texture_resolution'' (PInt 1024)) (\<lambda>tr.
     bindE (py_int E tr) (\<lambda>texture_resolution.
     bindE (py_get input_data ''remesh_option'' (PStr ''none'')) (\<lambda>ro.
     bindE (py_lower ro) (\<lambda>remesh_option.
       Inr (image_b64, foreground_ratio, texture_resolution, remesh_option)))))))))"

text \<open>Lines 167 to 226.\<close>

definition sf3d_run ::
  "('i, 'me, 'm, 's) sf3d_env \<Rightarrow> pyval \<Rightarrow> pyfloat \<Rightarrow> int \<Rightarrow> string \<Rightarrow>
   ('m, 's) sf3d_state \<Rightarrow> (pyexn + pydict) \<times> ('m, 's) sf3d_state"
where
  "sf3d_run E image_b64 foreground_ratio texture_resolution remesh_option st =
     (case sf_open_image E image_b64 of
        Inl e \<Rightarrow> (Inr (decode_error e), st)
      | Inr img \<Rightarrow>
          (case sf3d_remove_background E img st of
             (Inl e, st1) \<Rightarrow> (Inl e, st1)
           | (Inr img1, st1) \<Rightarrow>
               (case sf3d_resize_foreground E img1 foreground_ratio of
                  Inl e \<Rightarrow> (Inl e, st1)
                | Inr img2 \<Rightarrow>
                    (case sf3d_load_model E st1 of
                       (Inl e, st2) \<Rightarrow> (Inl e, st2)
                     | (Inr sf3d, st2) \<Rightarrow>
                         (bindE (sf_run_image E sf3d img2 texture_resolution
                                   (if remesh_option \<noteq> ''none'' then Some remesh_option
                                    else None)) (\<lambda>mesh.
                          bindE (mkstemp E ''.glb'') (\<lambda>output_path.
                          bindE (sf_mesh_export E mesh output_path) (\<lambda>mesh_data.
                          bindE (os_remove E output_path) (\<lambda>_.
                            Inr (sf3d_response mesh_data texture_resolution (elapsed E)))))),
                          st2)))))"

definition sf3d_body ::
  "('i, 'me, 'm, 's) sf3d_env \<Rightarrow> pyval \<Rightarrow> ('m, 's) sf3d_state \<Rightarrow>
   (pyexn + pydict) \<times> ('m, 's) sf3d_state"
where
  "sf3d_body E event st =
     (case sf3d_params E event of
        Inl e \<Rightarrow> (Inl e, st)
      | Inr (image_b64, foreground_ratio, texture_resolution, remesh_option) \<Rightarrow>
          if \<not> truthy image_b64 then (Inr no_image_error, st)
          else
            sf3d_run E image_b64
              (if flt_lt foreground_ratio lit_0_5 \<or> flt_gt foreground_ratio lit_1_0
               then lit_0_85 else foreground_ratio)
              (max 512 (min 2048 texture_resolution))
              (if remesh_option \<notin> set [''none'', ''triangle'', ''quad''] then ''none''
               else remesh_option)
              st)"

text \<open>\<open>"out of memory" in str(e).lower()\<close>\<close>

fun starts_with :: "'a list \<Rightarrow> 'a list \<Rightarrow> bool" where
  "starts_with [] ys = True"
| "starts_with (x # xs) [] = False"
| "starts_with (x # xs) (y # ys) = (x = y \<and> starts_with xs ys)"

fun str_contains :: "string \<Rightarrow> string \<Rightarrow> bool" where
  "str_contains pat [] = (pat = [])"
| "str_contains pat (c # cs) = (starts_with pat (c # cs) \<or> str_contains pat cs)"

definition mentions_oom :: "pyexn \<Rightarrow> bool" where
  "mentions_oom e = str_contains ''out of memory'' (str_lower (exn_str e))"

text \<open>Lines 228 to 235.\<close>

definition sf3d_except :: "pyexn \<Rightarrow> pydict" where
  "sf3d_except e =
     (if mentions_oom e then
        [(''error'',
          PStr ''GPU out of memory. Try a lower texture_resolution (512 or 1024).'')]
      else [(''error'', PStr (''Generation failed: '' @ exn_str e))])"

definition sf3d_handler ::
  "('i, 'me, 'm, 's) sf3d_env \<Rightarrow> pyval \<Rightarrow> ('m, 's) sf3d_state \<Rightarrow>
   pydict \<times> ('m, 's) sf3d_state"
where
  "sf3d_handler E event st = catch_with sf3d_except (sf3d_body E event st)"

section \<open>The Hunyuan3D-2 handler (\<open>runpod-handler-hunyuan3d/handler.py\<close>)\<close>

text \<open>
  \<open>hy_rembg_available\<close> is whether the import in \<open>lazy_import\<close> succeeds (it assigns
  \<open>remove\<close> and \<open>new_session\<close> afresh on every call); \<open>hy_open_image\<close> is the body of
  the inner \<open>try\<close>; \<open>hy_shape_run\<close> is \<open>shape_pipe(image=path)\<close>, a sequence of meshes.
\<close>

record ('i, 'me, 'sp, 'pp, 's) hunyuan_env = builtins +
  hy_rembg_available :: bool
  hy_new_session :: "string \<Rightarrow> pyexn + 's"
  hy_remove :: "'i \<Rightarrow> 's \<Rightarrow> pyexn + 'i"
  hy_open_image :: "pyval \<Rightarrow> pyexn + 'i"
  hy_save_image :: "'i \<Rightarrow> string \<Rightarrow> pyexn + unit"
  hy_shape_from_pretrained :: "pyexn + 'sp"
  hy_shape_to_cuda :: "'sp \<Rightarrow> pyexn + unit"
  hy_paint_from_pretrained :: "pyexn + 'pp"
  hy_paint_to_cuda :: "'pp \<Rightarrow> pyexn + unit"
  hy_shape_run :: "'sp \<Rightarrow> string \<Rightarrow> pyexn + 'me list"
  hy_paint_run :: "'pp \<Rightarrow> 'me \<Rightarrow> string \<Rightarrow> pyexn + 'me"
  hy_mesh_export :: "'me \<Rightarrow> string \<Rightarrow> pyexn + byte list"

text \<open>The module's globals, and the environment variable \<open>HY3D_PROFILE\<close> (the profile
  whose \<open>str\<close> is stored).\<close>

record ('sp, 'pp, 's) hunyuan_state =
  hy_shape_pipeline :: "'sp option"
  hy_paint_pipeline :: "'pp option"
  hy_rembg_session :: "'s option"
  hy_profile_var :: "int option"










text \<open>Lines 199 to 206.\<close>

definition hunyuan_except :: "pyexn \<Rightarrow> pydict" where
  "hunyuan_except e =
     (if mentions_oom e then
        [(''error'', PStr ''GPU out of memory. Try increasing the memory profile (3-5).'')]
      else [(''error'', PStr (''Generation failed: '' @ exn_str e))])"


section \<open>Sample environments\<close>

text \<open>
  One instance of the parameters for each handler, on which the definitions above can be
  run. \<open>float\<close> and \<open>int\<close> parse a few literals and raise on the other strings below.
  \<open>sample_png\<close> is the base64 text of a PNG file of one RGBA pixel, which
  \<open>b64decode\<close> and \<open>Image.open\<close> accept; an opened image is kept as its size.
  \<open>b64decode\<close> raises "Incorrect padding" on the text \<open>aGk\<close>, and a \<open>TypeError\<close>
  that names the type on a value that is not a string. Every other text is taken to
  decode to bytes that are no image, as \<open>aGk=\<close> does: \<open>Image.open\<close> raises on
  them, with a message that names the stream object of the run. The statements below run
  the sample on the first three kinds of input only. For SF3D and Hunyuan3D a mesh is
  the bytes of its GLB file, and every call into the model libraries succeeds.
\<close>

definition demo_float_conv :: "pyval \<Rightarrow> string + pyfloat" where
  "demo_float_conv v =
     (case v of
        PStr s \<Rightarrow>
          if s = ''0.75'' then Inr (Finite (3 / 4))
          else if s = ''nan'' then Inr NaN
          else Inl (''could not convert string to float: '' @ [CHR 0x27] @ s @ [CHR 0x27])
      | _ \<Rightarrow>
          Inl (''float() argument must be a string or a real number, not '' @
               [CHR 0x27] @ type_name v @ [CHR 0x27]))"

definition demo_int_conv :: "pyval \<Rightarrow> string + int" where
  "demo_int_conv v =
     (case v of
        PStr s \<Rightarrow>
          if s = ''1000'' then Inr 1000
          else if s = ''7'' then Inr 7
          else Inl (''invalid literal for int() with base 10: '' @ [CHR 0x27] @ s @ [CHR 0x27])
      | _ \<Rightarrow>
          Inl (''int() argument must be a string, a bytes-like object or a real number, not '' @
               [CHR 0x27] @ type_name v @ [CHR 0x27]))"

text \<open>\<open>int(n / q)\<close> by the exact quotient: right wherever rounding the quotient to a
  double does not reach the next integer, as for the one pixel of the sample.\<close>

definition demo_quotient_conv :: "int \<Rightarrow> rat \<Rightarrow> string + int" where
  "demo_quotient_conv n q =
     (if q = 0 then Inl ''float division by zero'' else Inr (trunc_rat (of_int n / q)))"

definition sample_png :: string where
  "sample_png =
     ''iVBORw0KGgoAAAANSUhEUgAAAAEAAAABCAYAAAAfFcSJAAAADUlEQVR42mNkYPhfDwAChwGA60e6kgAAAABJRU5ErkJggg==''"

definition demo_open_image :: "pyval \<Rightarrow> pyexn + int \<times> int" where
  "demo_open_image v =
     (case v of
        PStr s \<Rightarrow>
          if s = sample_png then Inr (1, 1)
          else if s = ''aGk'' then Inl (PyExn OtherException ''Incorrect padding'')
          else Inl (PyExn OtherException
                      ''cannot identify image file <_io.BytesIO object at 0x7f8b1c0d3e20>'')
      | _ \<Rightarrow>
          Inl (PyExn OtherException
                 (''argument should be a bytes-like object or ASCII string, not '' @
                  [CHR 0x27] @ type_name v @ [CHR 0x27])))"

definition demo_glb :: "byte list" where
  "demo_glb = [103, 108, 84, 70]"

text \<open>For TripoSR the sample keeps of a mesh the resolution it was extracted at, and
  counts its vertices and faces from that; \<open>resize_foreground\<close> of the TSR package
  computes \<open>int(size / ratio)\<close> as the one of SF3D does.\<close>

definition demo_triposr :: "(int \<times> int, int, unit, nat) triposr_env" where
  "demo_triposr =
     \<lparr>float_conv = demo_float_conv, int_conv = demo_int_conv, elapsed = Finite (5 / 4),
      mkstemp = (\<lambda>suffix. Inr (''/tmp/tmpmesh'' @ suffix)), os_remove = (\<lambda>path. Inr ()),
      quotient_conv = demo_quotient_conv,
      tsr_open_image = demo_open_image,
      tsr_remove_background = Inr,
      tsr_resize_foreground =
        (\<lambda>img ratio.
           if ratio = NaN then Inl (PyExn OtherException ''cannot convert float NaN to integer'')
           else Inr img),
      tsr_image_mode = (\<lambda>img. ''RGBA''),
      tsr_paste_on_white = Inr,
      tsr_convert_rgb = Inr,
      tsr_from_pretrained = Inr 1,
      tsr_set_chunk_size = (\<lambda>m n. Inr ()),
      tsr_to_cuda = (\<lambda>m. Inr ()),
      tsr_scene_codes = (\<lambda>m img. Inr ()),
      tsr_extract_mesh = (\<lambda>m codes vertex_color resolution. Inr [resolution]),
      tsr_count_vertices = (\<lambda>mesh. Inr (mesh * mesh)),
      tsr_count_faces = (\<lambda>mesh. Inr (2 * mesh * mesh)),
      tsr_mesh_export = (\<lambda>mesh path file_type. Inr demo_glb)\<rparr>"

definition demo_sf3d :: "(int \<times> int, byte list, nat, nat) sf3d_env" where
  "demo_sf3d =
     \<lparr>float_conv = demo_float_conv, int_conv = demo_int_conv, elapsed = Finite (5 / 4),
      mkstemp = (\<lambda>suffix. Inr (''/tmp/tmpmesh'' @ suffix)), os_remove = (\<lambda>path. Inr ()),
      quotient_conv = demo_quotient_conv,
      sf_import_modules = Inr (),
      sf_from_pretrained = Inr 1,
      sf_to_cuda = (\<lambda>m. Inr ()),
      sf_eval = (\<lambda>m. Inr ()),
      sf_new_session = (\<lambda>name. Inr 2),
      sf_remove = (\<lambda>img session. Inr img),
      sf_open_image = demo_open_image,
      sf_crop_to_alpha = Inr,
      sf_image_size = (\<lambda>img. img),
      sf_new_image = (\<lambda>n. Inr (n, n)),
      sf_paste = (\<lambda>new_image img pos. Inr new_image),
      sf_run_image = (\<lambda>m img resolution remesh. Inr demo_glb),
      sf_mesh_export = (\<lambda>mesh path. Inr mesh)\<rparr>"

definition demo_hunyuan :: "(int \<times> int, byte list, nat, nat, nat) hunyuan_env" where
  "demo_hunyuan =
     \<lparr>float_conv = demo_float_conv, int_conv = demo_int_conv, elapsed = Finite (5 / 4),
      mkstemp = (\<lambda>suffix. Inr (''/tmp/tmpfile'' @ suffix)), os_remove = (\<lambda>path. Inr ()),
      quotient_conv = demo_quotient_conv,
      hy_rembg_available = True,
      hy_new_session = (\<lambda>name. Inr 3),
      hy_remove = (\<lambda>img session. Inr img),
      hy_open_image = demo_open_image,
      hy_save_image = (\<lambda>img path. Inr ()),
      hy_shape_from_pretrained = Inr 1,
      hy_shape_to_cuda = (\<lambda>p. Inr ()),
      hy_paint_from_pretrained = Inr 2,
      hy_paint_to_cuda = (\<lambda>p. Inr ()),
      hy_shape_run = (\<lambda>p path. Inr [demo_glb]),
      hy_paint_run = (\<lambda>p mesh path. Inr mesh),
      hy_mesh_export = (\<lambda>mesh path. Inr mesh)\<rparr>"

text \<open>The same with a GPU that runs out of memory: in \<open>model.to("cuda")\<close> for TripoSR
  (a \<open>torch.cuda.OutOfMemoryError\<close>), in the shape pipeline for Hunyuan3D (reported as
  a \<open>RuntimeError\<close>).\<close>

definition demo_triposr_oom :: "(int \<times> int, int, unit, nat) triposr_env" where
  "demo_triposr_oom =
     demo_triposr\<lparr>tsr_to_cuda :=
       (\<lambda>m. Inl (PyExn CudaOutOfMemoryError
                   ''CUDA out of memory. Tried to allocate 2.00 GiB''))\<rparr>"

definition demo_hunyuan_oom :: "(int \<times> int, byte list, nat, nat, nat) hunyuan_env" where
  "demo_hunyuan_oom =
     demo_hunyuan\<lparr>hy_shape_run :=
       (\<lambda>p path. Inl (PyExn OtherException
                      ''CUDA out of memory. Tried to allocate 2.00 GiB''))\<rparr>"

text \<open>The globals as the modules initialise them.\<close>

definition triposr_init :: "nat triposr_state" where
  "triposr_init = \<lparr>tsr_model = None\<rparr>"

definition sf3d_init :: "(nat, nat) sf3d_state" where
  "sf3d_init = \<lparr>sf_model = None, sf_rembg_session = None, sf_imported = False\<rparr>"

definition hunyuan_init :: "(nat, nat, nat) hunyuan_state" where
  "hunyuan_init =
     \<lparr>hy_shape_pipeline = None, hy_paint_pipeline = None, hy_rembg_session = None,
      hy_profile_var = None\<rparr>"

text \<open>A request: \<open>{"input": {...}}\<close>.\<close>

definition request :: "pydict \<Rightarrow> pyval" where
  "request input_data = PDict [(''input'', PDict input_data)]"

section \<open>Base64 decoding inverts encoding\<close>

















text \<open>The sample image decodes to a PNG file: the signature, an \<open>IHDR\<close> chunk for one
  pixel of 8-bit RGBA, an \<open>IDAT\<close> and an \<open>IEND\<close> chunk.\<close>

lemma sample_png_is_a_png:
  "b64decode sample_png =
     Some [137, 80, 78, 71, 13, 10, 26, 10, 0, 0, 0, 13, 73, 72, 68, 82, 0, 0, 0, 1, 0, 0, 0, 1,
           8, 6, 0, 0, 0, 31, 21, 196, 137, 0, 0, 0, 13, 73, 68, 65, 84, 120, 218, 99, 100, 96,
           248, 95, 15, 0, 2, 135, 1, 128, 235, 71, 186, 146, 0, 0, 0, 0, 73, 69, 78, 68, 174,
           66, 96, 130]"
  by (simp add: sample_png_def b64_index_def b64_alphabet_def)

section \<open>Unfolding the handlers\<close>

text \<open>The one pixel of the sample at the default ratio: \<open>int(1 / 0.85) = 1\<close>.\<close>

lemma demo_quotient_default:
  "demo_quotient_conv 1 (7656119366529843 / 9007199254740992) = Inr 1"
  by (simp add: demo_quotient_conv_def trunc_rat_def floor_eq_iff)

lemmas demo_defs = demo_triposr_def demo_sf3d_def demo_hunyuan_def demo_triposr_oom_def
  demo_hunyuan_oom_def demo_float_conv_def demo_quotient_default sample_png_def
  demo_int_conv_def demo_open_image_def demo_glb_def triposr_init_def sf3d_init_def
  hunyuan_init_def request_def

lemmas base_defs = bindE_def catch_with_def dict_get_def conv_result_def attribute_error_def
  lit_0_5_def lit_1_0_def lit_0_85_def flt_gt_def str_lower_def lower_char_def
  no_image_error_def decode_error_def b64_index_def b64_alphabet_def b64_char_def




lemma py_float_class: "py_float B v = Inl e \<Longrightarrow> exn_cls e = OtherException"
  by (cases "(B, v)" rule: py_float.cases)
     (auto simp: conv_result_def split: sum.splits if_splits)

lemma py_int_class: "py_int B v = Inl e \<Longrightarrow> exn_cls e = OtherException"
  by (cases "(B, v)" rule: py_int.cases)
     (auto simp: conv_result_def split: sum.splits if_splits)

lemma triposr_params_of_input:
  assumes "py_get event ''input'' (PDict []) = Inr (PDict d)"
  shows "triposr_params E event =
     bindE (py_float E (dict_get d ''foreground_ratio'' (PFloat lit_0_85))) (\<lambda>fr.
     bindE (py_int E (dict_get d ''mc_resolution'' (PInt 256))) (\<lambda>mc.
     bindE (py_lower (dict_get d ''output_format'' (PStr ''glb''))) (\<lambda>fmt.
       Inr (dict_get d ''image'' PNone, fr, mc, fmt))))"
  using assms by (simp add: triposr_params_def bindE_def split: sum.splits)

lemma sf3d_params_of_input:
  assumes "py_get event ''input'' (PDict []) = Inr (PDict d)"
  shows "sf3d_params E event =
     bindE (py_float E (dict_get d ''foreground_ratio'' (PFloat lit_0_85))) (\<lambda>fr.
     bindE (py_int E (dict_get d ''texture_resolution'' (PInt 1024))) (\<lambda>tr.
     bindE (py_lower (dict_get d ''remesh_option'' (PStr ''none''))) (\<lambda>ro.
       Inr (dict_get d ''image'' PNone, fr, tr, ro))))"
  using assms by (simp add: sf3d_params_def bindE_def split: sum.splits)


section \<open>What the handlers do to the globals\<close>

lemma triposr_load_model_loaded:
  "tsr_model st = Some m \<Longrightarrow> triposr_load_model E st = (Inr m, st)"
  by (simp add: triposr_load_model_def)

lemma triposr_load_model_result:
  "triposr_load_model E st = (Inr m, st') \<Longrightarrow> tsr_model st' = Some m"
  by (auto simp: triposr_load_model_def bindE_def split: option.splits sum.splits)

lemma generate_mesh_state:
  "snd (generate_mesh E img mc st) = snd (triposr_load_model E st)"
proof (cases "triposr_load_model E st")
  case (Pair r st')
  then show ?thesis
    by (cases r) (simp_all add: generate_mesh_def)
qed

lemma triposr_run_state:
  "snd (triposr_run E i fr mc fmt st) = st \<or>
   snd (triposr_run E i fr mc fmt st) = snd (triposr_load_model E st)"
proof (cases "tsr_open_image E i")
  case (Inl e)
  then show ?thesis by (simp add: triposr_run_def)
next
  case (Inr img)
  show ?thesis
  proof (cases "preprocess_image E img fr")
    case (Inl e)
    with Inr show ?thesis by (simp add: triposr_run_def)
  next
    case processed: (Inr processed)
    obtain r st' where gm: "generate_mesh E processed mc st = (r, st')"
      by (cases "generate_mesh E processed mc st")
    with Inr processed have "snd (triposr_run E i fr mc fmt st) = st'"
      by (cases r) (simp_all add: triposr_run_def)
    with gm generate_mesh_state [of E processed mc st] show ?thesis
      by simp
  qed
qed

lemma triposr_handler_state:
  "snd (triposr_handler E event st) = st \<or>
   snd (triposr_handler E event st) = snd (triposr_load_model E st)"
proof (cases "triposr_params E event")
  case (Inl e)
  then show ?thesis
    by (simp add: triposr_handler_def triposr_body_def catch_with_def)
next
  case (Inr p)
  obtain i fr mc fmt where p: "p = (i, fr, mc, fmt)"
    by (cases p)
  show ?thesis
  proof (cases "truthy i")
    case False
    with Inr p show ?thesis
      by (simp add: triposr_handler_def triposr_body_def catch_with_def)
  next
    case True
    define fr' where "fr' = (if flt_lt fr lit_0_5 \<or> flt_gt fr lit_1_0 then lit_0_85 else fr)"
    define mc' where "mc' = (if mc \<notin> set [128, 256, 512] then 256 else mc)"
    define fmt' where "fmt' = (if fmt \<notin> set [''glb'', ''obj''] then ''glb'' else fmt)"
    obtain r st' where run: "triposr_run E i fr' mc' fmt' st = (r, st')"
      by (cases "triposr_run E i fr' mc' fmt' st")
    from Inr p True have "triposr_body E event st = triposr_run E i fr' mc' fmt' st"
      by (simp add: triposr_body_def fr'_def mc'_def fmt'_def)
    with run have "snd (triposr_handler E event st) = st'"
      by (cases r) (simp_all add: triposr_handler_def catch_with_def)
    with run triposr_run_state [of E i fr' mc' fmt' st] show ?thesis
      by simp
  qed
qed

lemma triposr_handler_loaded:
  "tsr_model st = Some m \<Longrightarrow> snd (triposr_handler E event st) = st"
  using triposr_handler_state [of E event st] by (auto simp: triposr_load_model_loaded)

lemma sf3d_lazy_import_model:
  "sf_model (snd (sf3d_lazy_import E st)) = sf_model st"
  by (simp add: sf3d_lazy_import_def split: sum.splits)

lemma sf3d_lazy_import_imported:
  "sf3d_lazy_import E st = (Inr u, st') \<Longrightarrow> sf_imported st'"
  by (auto simp: sf3d_lazy_import_def split: sum.splits if_splits)

lemma sf3d_lazy_import_keeps:
  "sf_imported st \<Longrightarrow> sf3d_lazy_import E st = (Inr (), st)"
  by (simp add: sf3d_lazy_import_def)

lemma sf3d_lazy_import_inv:
  "(sf_model st \<noteq> None \<longrightarrow> sf_imported st) \<Longrightarrow>
   (sf_model (snd (sf3d_lazy_import E st)) \<noteq> None \<longrightarrow> sf_imported (snd (sf3d_lazy_import E st)))"
  by (auto simp: sf3d_lazy_import_def split: sum.splits)

lemma sf3d_load_model_loaded:
  "sf_model st = Some m \<Longrightarrow> sf_imported st \<Longrightarrow> sf3d_load_model E st = (Inr m, st)"
  by (simp add: sf3d_load_model_def sf3d_lazy_import_keeps)

lemma sf3d_load_model_result:
  assumes "sf3d_load_model E st = (Inr m, st')"
  shows "sf_model st' = Some m \<and> sf_imported st'"
proof -
  obtain r st1 where l: "sf3d_lazy_import E st = (r, st1)"
    by (cases "sf3d_lazy_import E st")
  with assms obtain u where r: "r = Inr u"
    by (cases r) (auto simp: sf3d_load_model_def)
  with l have imp: "sf_imported st1"
    using sf3d_lazy_import_imported by blast
  from assms l r imp show ?thesis
    by (auto simp: sf3d_load_model_def split: option.splits sum.splits)
qed

lemma sf3d_load_model_keeps:
  "sf_model st = Some m \<Longrightarrow> sf_model (snd (sf3d_load_model E st)) = Some m"
  using sf3d_lazy_import_model [of E st]
  by (cases "sf3d_lazy_import E st") (auto simp: sf3d_load_model_def split: sum.splits)

lemma sf3d_load_model_inv:
  assumes "sf_model st \<noteq> None \<longrightarrow> sf_imported st"
  shows "sf_model (snd (sf3d_load_model E st)) \<noteq> None \<longrightarrow>
         sf_imported (snd (sf3d_load_model E st))"
proof (cases "sf3d_lazy_import E st")
  case (Pair r st1)
  show ?thesis
  proof (cases r)
    case (Inl e)
    with Pair assms sf3d_lazy_import_inv [of st E] show ?thesis
      by (simp add: sf3d_load_model_def)
  next
    case (Inr u)
    with Pair have "sf_imported st1"
      using sf3d_lazy_import_imported by blast
    with Pair Inr show ?thesis
      by (auto simp: sf3d_load_model_def split: option.splits sum.splits)
  qed
qed

lemma sf3d_remove_background_keeps:
  "sf_model (snd (sf3d_remove_background E i st)) = sf_model st"
  using sf3d_lazy_import_model [of E st]
  by (cases "sf3d_lazy_import E st")
     (auto simp: sf3d_remove_background_def split: sum.splits option.splits)

lemma sf3d_remove_background_inv:
  assumes "sf_model st \<noteq> None \<longrightarrow> sf_imported st"
  shows "sf_model (snd (sf3d_remove_background E i st)) \<noteq> None \<longrightarrow>
         sf_imported (snd (sf3d_remove_background E i st))"
proof (cases "sf3d_lazy_import E st")
  case (Pair r st1)
  show ?thesis
  proof (cases r)
    case (Inl e)
    with Pair assms sf3d_lazy_import_inv [of st E] show ?thesis
      by (simp add: sf3d_remove_background_def)
  next
    case (Inr u)
    with Pair have "sf_imported st1"
      using sf3d_lazy_import_imported by blast
    with Pair Inr show ?thesis
      by (auto simp: sf3d_remove_background_def split: option.splits sum.splits)
  qed
qed

lemma sf3d_run_state:
  "snd (sf3d_run E i fr tr ro st) = st \<or>
   (\<exists>img. snd (sf3d_run E i fr tr ro st) = snd (sf3d_remove_background E img st)) \<or>
   (\<exists>img. snd (sf3d_run E i fr tr ro st) =
      snd (sf3d_load_model E (snd (sf3d_remove_background E img st))))"
proof (cases "sf_open_image E i")
  case (Inl e)
  then show ?thesis by (simp add: sf3d_run_def)
next
  case (Inr img)
  obtain r1 st1 where rb: "sf3d_remove_background E img st = (r1, st1)"
    by (cases "sf3d_remove_background E img st")
  show ?thesis
  proof (cases r1)
    case (Inl e)
    with Inr rb have "snd (sf3d_run E i fr tr ro st) = snd (sf3d_remove_background E img st)"
      by (simp add: sf3d_run_def)
    then show ?thesis by blast
  next
    case img1: (Inr img1)
    show ?thesis
    proof (cases "sf3d_resize_foreground E img1 fr")
      case (Inl e)
      with Inr rb img1
      have "snd (sf3d_run E i fr tr ro st) = snd (sf3d_remove_background E img st)"
        by (simp add: sf3d_run_def)
      then show ?thesis by blast
    next
      case img2: (Inr img2)
      obtain r2 st2 where lm: "sf3d_load_model E st1 = (r2, st2)"
        by (cases "sf3d_load_model E st1")
      with Inr rb img1 img2
      have "snd (sf3d_run E i fr tr ro st) =
          snd (sf3d_load_model E (snd (sf3d_remove_background E img st)))"
        by (cases r2) (simp_all add: sf3d_run_def)
      then show ?thesis by blast
    qed
  qed
qed

lemma sf3d_run_keeps:
  "sf_model st = Some m \<Longrightarrow> sf_model (snd (sf3d_run E i fr tr ro st)) = Some m"
  using sf3d_run_state [of E i fr tr ro st]
  by (auto simp: sf3d_remove_background_keeps sf3d_load_model_keeps)

lemma sf3d_run_inv:
  assumes "sf_model st \<noteq> None \<longrightarrow> sf_imported st"
  shows "sf_model (snd (sf3d_run E i fr tr ro st)) \<noteq> None \<longrightarrow>
         sf_imported (snd (sf3d_run E i fr tr ro st))"
proof -
  have rb: "sf_model (snd (sf3d_remove_background E img st)) \<noteq> None \<longrightarrow>
      sf_imported (snd (sf3d_remove_background E img st))" for img
    by (rule sf3d_remove_background_inv [OF assms])
  have lm: "sf_model (snd (sf3d_load_model E (snd (sf3d_remove_background E img st)))) \<noteq> None \<longrightarrow>
      sf_imported (snd (sf3d_load_model E (snd (sf3d_remove_background E img st))))" for img
    by (rule sf3d_load_model_inv [OF rb])
  from sf3d_run_state [of E i fr tr ro st] show ?thesis
  proof (elim disjE exE)
    assume "snd (sf3d_run E i fr tr ro st) = st"
    with assms show ?thesis by simp
  next
    fix img
    assume "snd (sf3d_run E i fr tr ro st) = snd (sf3d_remove_background E img st)"
    with rb [of img] show ?thesis by simp
  next
    fix img
    assume "snd (sf3d_run E i fr tr ro st) =
      snd (sf3d_load_model E (snd (sf3d_remove_background E img st)))"
    with lm [of img] show ?thesis by simp
  qed
qed

lemma sf3d_handler_state:
  "snd (sf3d_handler E event st) = st \<or>
   (\<exists>i fr tr ro. snd (sf3d_handler E event st) = snd (sf3d_run E i fr tr ro st))"
proof (cases "sf3d_params E event")
  case (Inl e)
  then show ?thesis
    by (simp add: sf3d_handler_def sf3d_body_def catch_with_def)
next
  case (Inr p)
  obtain i fr tr ro where p: "p = (i, fr, tr, ro)"
    by (cases p)
  show ?thesis
  proof (cases "truthy i")
    case False
    with Inr p show ?thesis
      by (simp add: sf3d_handler_def sf3d_body_def catch_with_def)
  next
    case True
    define fr' where "fr' = (if flt_lt fr lit_0_5 \<or> flt_gt fr lit_1_0 then lit_0_85 else fr)"
    define tr' where "tr' = max 512 (min 2048 tr)"
    define ro' where
      "ro' = (if ro \<notin> set [''none'', ''triangle'', ''quad''] then ''none'' else ro)"
    obtain r st' where run: "sf3d_run E i fr' tr' ro' st = (r, st')"
      by (cases "sf3d_run E i fr' tr' ro' st")
    from Inr p True have "sf3d_body E event st = sf3d_run E i fr' tr' ro' st"
      by (simp add: sf3d_body_def fr'_def tr'_def ro'_def)
    with run have "snd (sf3d_handler E event st) = st'"
      by (cases r) (simp_all add: sf3d_handler_def catch_with_def)
    with run have "snd (sf3d_handler E event st) = snd (sf3d_run E i fr' tr' ro' st)"
      by simp
    then show ?thesis by blast
  qed
qed

lemma sf3d_handler_keeps:
  "sf_model st = Some m \<Longrightarrow> sf_model (snd (sf3d_handler E event st)) = Some m"
  using sf3d_handler_state [of E event st] by (auto simp: sf3d_run_keeps)

lemma sf3d_handler_inv:
  assumes "sf_model st \<noteq> None \<longrightarrow> sf_imported st"
  shows "sf_model (snd (sf3d_handler E event st)) \<noteq> None \<longrightarrow>
         sf_imported (snd (sf3d_handler E event st))"
  using sf3d_handler_state [of E event st] assms sf3d_run_inv [OF assms, of E]
  by auto







section \<open>What the handlers return\<close>

lemma bindE_Inr_iff: "bindE x f = Inr r \<longleftrightarrow> (\<exists>v. x = Inr v \<and> f v = Inr r)"
  by (cases x) (simp_all add: bindE_def)


lemma triposr_run_response:
  assumes "fst (triposr_run E i fr mc fmt st) = Inr r"
  shows "(\<exists>e. r = decode_error e) \<or>
         (\<exists>mesh path ft data v f.
            tsr_mesh_export E mesh path ft = Inr data \<and>
            r = triposr_response data v f fmt (elapsed E))"
proof (cases "tsr_open_image E i")
  case (Inl e)
  with assms show ?thesis by (auto simp: triposr_run_def)
next
  case (Inr img)
  show ?thesis
  proof (cases "preprocess_image E img fr")
    case (Inl e)
    with Inr assms show ?thesis by (simp add: triposr_run_def)
  next
    case processed: (Inr processed)
    obtain g st' where gm: "generate_mesh E processed mc st = (g, st')"
      by (cases "generate_mesh E processed mc st")
    show ?thesis
    proof (cases g)
      case (Inl e)
      with Inr processed gm assms show ?thesis by (simp add: triposr_run_def)
    next
      case mesh: (Inr mesh)
      with Inr processed gm assms
      have "bindE (tsr_count_vertices E mesh) (\<lambda>vertices.
            bindE (tsr_count_faces E mesh) (\<lambda>faces.
            bindE (export_mesh E mesh fmt) (\<lambda>(output_path, mesh_data).
            bindE (os_remove E output_path) (\<lambda>_.
              Inr (triposr_response mesh_data vertices faces fmt (elapsed E)))))) = Inr r"
        by (simp add: triposr_run_def)
      then obtain v f path data where
        ex: "export_mesh E mesh fmt = Inr (path, data)"
        and r: "r = triposr_response data v f fmt (elapsed E)"
        by (auto simp: bindE_Inr_iff)
      from ex have "tsr_mesh_export E mesh path (if fmt = ''glb'' then ''glb'' else ''obj'') = Inr data"
        by (auto simp: export_mesh_def bindE_Inr_iff)
      with r show ?thesis by blast
    qed
  qed
qed

lemma error_dicts:
  "\<exists>msg. triposr_except e = [(''error'', PStr msg)]"
  "\<exists>msg. sf3d_except e = [(''error'', PStr msg)]"
  "\<exists>msg. hunyuan_except e = [(''error'', PStr msg)]"
  "\<exists>msg. no_image_error = [(''error'', PStr msg)]"
  "\<exists>msg. decode_error e = [(''error'', PStr msg)]"
  by (simp_all add: triposr_except_def sf3d_except_def hunyuan_except_def no_image_error_def
        decode_error_def)

lemma triposr_handler_response:
  "(\<exists>msg. fst (triposr_handler E event st) = [(''error'', PStr msg)]) \<or>
   (\<exists>mesh path ft data v f fmt.
      tsr_mesh_export E mesh path ft = Inr data \<and>
      fst (triposr_handler E event st) = triposr_response data v f fmt (elapsed E))"
proof (cases "triposr_params E event")
  case (Inl e)
  then show ?thesis
    using error_dicts(1) [of e]
    by (simp add: triposr_handler_def triposr_body_def catch_with_def)
next
  case (Inr p)
  obtain i fr mc fmt where p: "p = (i, fr, mc, fmt)"
    by (cases p)
  show ?thesis
  proof (cases "truthy i")
    case False
    with Inr p show ?thesis
      using error_dicts(4)
      by (simp add: triposr_handler_def triposr_body_def catch_with_def)
  next
    case True
    define fr' where "fr' = (if flt_lt fr lit_0_5 \<or> flt_gt fr lit_1_0 then lit_0_85 else fr)"
    define mc' where "mc' = (if mc \<notin> set [128, 256, 512] then 256 else mc)"
    define fmt' where "fmt' = (if fmt \<notin> set [''glb'', ''obj''] then ''glb'' else fmt)"
    obtain r st' where run: "triposr_run E i fr' mc' fmt' st = (r, st')"
      by (cases "triposr_run E i fr' mc' fmt' st")
    from Inr p True have body: "triposr_body E event st = triposr_run E i fr' mc' fmt' st"
      by (simp add: triposr_body_def fr'_def mc'_def fmt'_def)
    show ?thesis
    proof (cases r)
      case (Inl e)
      with run body show ?thesis
        using error_dicts(1) [of e] by (simp add: triposr_handler_def catch_with_def)
    next
      case resp: (Inr resp)
      with run body have h: "fst (triposr_handler E event st) = resp"
        by (simp add: triposr_handler_def catch_with_def)
      from run resp have "fst (triposr_run E i fr' mc' fmt' st) = Inr resp"
        by simp
      from triposr_run_response [OF this] h show ?thesis
        using error_dicts(5) by metis
    qed
  qed
qed






section \<open>The claims\<close>

text \<open>
  The test of lines 149 and 150 (154 to 156 in the SF3D handler) on a float that is not
  NaN: a finite value stays when it lies in \<open>[0.5, 1.0]\<close>, endpoints included, and is
  replaced by \<open>0.85\<close> otherwise; so are both infinities.
\<close>

lemma foreground_ratio_clamp_ordered:
  "(if flt_lt (Finite q) lit_0_5 \<or> flt_gt (Finite q) lit_1_0 then lit_0_85 else Finite q) =
     (if 1 / 2 \<le> q \<and> q \<le> 1 then Finite q else lit_0_85)"
  "(if flt_lt PosInf lit_0_5 \<or> flt_gt PosInf lit_1_0 then lit_0_85 else PosInf) = lit_0_85"
  "(if flt_lt NegInf lit_0_5 \<or> flt_gt NegInf lit_1_0 then lit_0_85 else NegInf) = lit_0_85"
  by (auto simp: lit_0_5_def lit_1_0_def flt_gt_def)

text \<open>
  C1 does not hold of the code for NaN, which \<open>float\<close> returns for the JSON literal
  \<open>NaN\<close> and for the string \<open>"nan"\<close>: both comparisons of the test are false on NaN,
  so it is not replaced by \<open>0.85\<close>, and the pipeline runs with \<open>foreground_ratio\<close>
  bound to NaN, a value outside \<open>[0.5, 1.0]\<close>. For every request whose image opens and
  whose \<open>foreground_ratio\<close> converts to NaN: the TripoSR handler calls
  \<open>resize_foreground\<close> of the TSR package with NaN, and what that call raises is what
  the handler reports; the SF3D handler, once the background is removed and the image
  cropped, raises in \<open>int(max(old_size) / ratio)\<close> (line 113) and answers
  \<open>{"error": "Generation failed: cannot convert float NaN to integer"}\<close>.
\<close>

theorem foreground_ratio_nan_reaches_resize:
  assumes inp: "py_get event ''input'' (PDict []) = Inr (PDict d)"
    and img: "truthy (dict_get d ''image'' PNone)"
  shows
   "(py_float E1 (dict_get d ''foreground_ratio'' (PFloat lit_0_85)) = Inr NaN \<and>
     py_int E1 (dict_get d ''mc_resolution'' (PInt 256)) = Inr mc \<and>
     py_lower (dict_get d ''output_format'' (PStr ''glb'')) = Inr fmt \<and>
     tsr_open_image E1 (dict_get d ''image'' PNone) = Inr img1 \<and>
     tsr_remove_background E1 img1 = Inr img2 \<and>
     tsr_resize_foreground E1 img2 NaN = Inl e \<longrightarrow>
       triposr_handler E1 event st1 = (triposr_except e, st1))
    \<and> (py_float E2 (dict_get d ''foreground_ratio'' (PFloat lit_0_85)) = Inr NaN \<and>
     py_int E2 (dict_get d ''texture_resolution'' (PInt 1024)) = Inr tr \<and>
     py_lower (dict_get d ''remesh_option'' (PStr ''none'')) = Inr ro \<and>
     sf_open_image E2 (dict_get d ''image'' PNone) = Inr img3 \<and>
     sf3d_remove_background E2 img3 st2 = (Inr img4, st2') \<and>
     sf_crop_to_alpha E2 img4 = Inr img5 \<longrightarrow>
       sf3d_handler E2 event st2 =
         ([(''error'', PStr ''Generation failed: cannot convert float NaN to integer'')],
          st2'))
    \<and> \<not> flt_lt NaN lit_0_5 \<and> \<not> flt_gt NaN lit_1_0 \<and> NaN \<noteq> lit_0_85"
proof (intro conjI impI)
  assume a: "py_float E1 (dict_get d ''foreground_ratio'' (PFloat lit_0_85)) = Inr NaN \<and>
     py_int E1 (dict_get d ''mc_resolution'' (PInt 256)) = Inr mc \<and>
     py_lower (dict_get d ''output_format'' (PStr ''glb'')) = Inr fmt \<and>
     tsr_open_image E1 (dict_get d ''image'' PNone) = Inr img1 \<and>
     tsr_remove_background E1 img1 = Inr img2 \<and>
     tsr_resize_foreground E1 img2 NaN = Inl e"
  then have par: "triposr_params E1 event = Inr (dict_get d ''image'' PNone, NaN, mc, fmt)"
    using inp by (simp add: triposr_params_of_input bindE_def)
  have pre: "preprocess_image E1 img1 NaN = Inl e"
    using a by (simp add: preprocess_image_def bindE_def)
  have "triposr_body E1 event st1 = (Inl e, st1)"
    using par img a pre
    by (simp add: triposr_body_def triposr_run_def lit_0_5_def lit_1_0_def flt_gt_def)
  then show "triposr_handler E1 event st1 = (triposr_except e, st1)"
    by (simp add: triposr_handler_def catch_with_def)
next
  assume a: "py_float E2 (dict_get d ''foreground_ratio'' (PFloat lit_0_85)) = Inr NaN \<and>
     py_int E2 (dict_get d ''texture_resolution'' (PInt 1024)) = Inr tr \<and>
     py_lower (dict_get d ''remesh_option'' (PStr ''none'')) = Inr ro \<and>
     sf_open_image E2 (dict_get d ''image'' PNone) = Inr img3 \<and>
     sf3d_remove_background E2 img3 st2 = (Inr img4, st2') \<and>
     sf_crop_to_alpha E2 img4 = Inr img5"
  then have par: "sf3d_params E2 event = Inr (dict_get d ''image'' PNone, NaN, tr, ro)"
    using inp by (simp add: sf3d_params_of_input bindE_def)
  have rs: "sf3d_resize_foreground E2 img4 NaN =
      Inl (PyExn OtherException ''cannot convert float NaN to integer'')"
    using a by (simp add: sf3d_resize_foreground_def bindE_def)
  have "sf3d_body E2 event st2 =
      (Inl (PyExn OtherException ''cannot convert float NaN to integer''), st2')"
    using par img a rs
    by (simp add: sf3d_body_def sf3d_run_def lit_0_5_def lit_1_0_def flt_gt_def)
  then show "sf3d_handler E2 event st2 =
         ([(''error'', PStr ''Generation failed: cannot convert float NaN to integer'')],
          st2')"
    by (simp add: sf3d_handler_def catch_with_def sf3d_except_def mentions_oom_def
          str_lower_def lower_char_def)
qed (simp_all add: lit_0_5_def lit_1_0_def lit_0_85_def flt_gt_def)

theorem foreground_ratio_nan_reaches_resize_witness:
  "triposr_handler demo_triposr
     (request [(''image'', PStr sample_png), (''foreground_ratio'', PStr ''nan'')])
     triposr_init =
   ([(''error'', PStr ''Generation failed: cannot convert float NaN to integer'')],
    triposr_init)
   \<and> sf3d_handler demo_sf3d
     (request [(''image'', PStr sample_png), (''foreground_ratio'', PStr ''nan'')])
     sf3d_init =
   ([(''error'', PStr ''Generation failed: cannot convert float NaN to integer'')],
    \<lparr>sf_model = None, sf_rembg_session = Some 2, sf_imported = True\<rparr>)"
proof -
  have i: "py_get (request [(''image'', PStr sample_png), (''foreground_ratio'', PStr ''nan'')])
        ''input'' (PDict []) =
      Inr (PDict [(''image'', PStr sample_png), (''foreground_ratio'', PStr ''nan'')])"
    by (simp add: request_def dict_get_def)
  have t: "truthy (dict_get [(''image'', PStr sample_png), (''foreground_ratio'', PStr ''nan'')]
        ''image'' PNone)"
    by (simp add: dict_get_def sample_png_def)
  have w1: "triposr_handler demo_triposr
     (request [(''image'', PStr sample_png), (''foreground_ratio'', PStr ''nan'')])
     triposr_init =
   ([(''error'', PStr ''Generation failed: cannot convert float NaN to integer'')],
    triposr_init)"
    using foreground_ratio_nan_reaches_resize
      [where ?E1.0 = demo_triposr and mc = 256 and fmt = "''glb''" and ?img1.0 = "(1, 1)"
         and ?img2.0 = "(1, 1)"
         and e = "PyExn OtherException ''cannot convert float NaN to integer''"
         and ?st1.0 = triposr_init, OF i t, THEN conjunct1]
    by (simp add: demo_defs base_defs triposr_except_def)
  have w2: "sf3d_handler demo_sf3d
     (request [(''image'', PStr sample_png), (''foreground_ratio'', PStr ''nan'')])
     sf3d_init =
   ([(''error'', PStr ''Generation failed: cannot convert float NaN to integer'')],
    \<lparr>sf_model = None, sf_rembg_session = Some 2, sf_imported = True\<rparr>)"
    using foreground_ratio_nan_reaches_resize
      [where ?E2.0 = demo_sf3d and tr = 1024 and ro = "''none''" and ?img3.0 = "(1, 1)"
         and ?img4.0 = "(1, 1)" and ?img5.0 = "(1, 1)" and ?st2.0 = sf3d_init
         and ?st2' = "\<lparr>sf_model = None, sf_rembg_session = Some 2, sf_imported = True\<rparr>",
       OF i t, THEN conjunct2, THEN conjunct1]
    by (simp add: demo_defs base_defs sf3d_remove_background_def sf3d_lazy_import_def)
  from w1 w2 show ?thesis by simp
qed

text \<open>
  C2. For every request to the TripoSR handler whose \<open>mc_resolution\<close> parses as an int
  and whose run gets as far as mesh generation (its \<open>input\<close> is a dict, the other
  options convert, the image opens and is preprocessed, the model loads and gives scene
  codes): \<open>extract_mesh\<close> is called with \<open>resolution\<close> the parsed value when that is
  128, 256 or 512, and 256 otherwise, and the response is made from the meshes of that
  call.
\<close>

theorem triposr_mc_resolution_reaches_extract_mesh:
  assumes inp: "py_get event ''input'' (PDict []) = Inr (PDict d)"
    and img: "truthy (dict_get d ''image'' PNone)"
    and flt: "py_float E (dict_get d ''foreground_ratio'' (PFloat lit_0_85)) = Inr fr"
    and res: "py_int E (dict_get d ''mc_resolution'' (PInt 256)) = Inr mc"
    and low: "py_lower (dict_get d ''output_format'' (PStr ''glb'')) = Inr fmt"
    and opn: "tsr_open_image E (dict_get d ''image'' PNone) = Inr img1"
    and pre: "preprocess_image E img1
                (if flt_lt fr lit_0_5 \<or> flt_gt fr lit_1_0 then lit_0_85 else fr) =
              Inr processed"
    and lod: "triposr_load_model E st = (Inr tsr, st')"
    and cod: "tsr_scene_codes E tsr processed = Inr codes"
  shows "triposr_handler E event st =
     catch_with triposr_except
       (bindE (tsr_extract_mesh E tsr codes True
                 (if mc = 128 \<or> mc = 256 \<or> mc = 512 then mc else 256)) (\<lambda>meshes.
        bindE (case meshes of
                 [] \<Rightarrow> Inl (PyExn OtherException ''list index out of range'')
               | mesh # _ \<Rightarrow> Inr mesh) (\<lambda>mesh.
        bindE (tsr_count_vertices E mesh) (\<lambda>vertices.
        bindE (tsr_count_faces E mesh) (\<lambda>faces.
        bindE (export_mesh E mesh (if fmt = ''glb'' \<or> fmt = ''obj'' then fmt else ''glb''))
          (\<lambda>(output_path, mesh_data).
        bindE (os_remove E output_path) (\<lambda>_.
          Inr (triposr_response mesh_data vertices faces
                 (if fmt = ''glb'' \<or> fmt = ''obj'' then fmt else ''glb'')
                 (elapsed E)))))))),
        st')"
proof -
  define r where "r = (if mc = 128 \<or> mc = 256 \<or> mc = 512 then mc else 256)"
  define f where "f = (if fmt = ''glb'' \<or> fmt = ''obj'' then fmt else ''glb'')"
  have par: "triposr_params E event = Inr (dict_get d ''image'' PNone, fr, mc, fmt)"
    using inp flt res low by (simp add: triposr_params_of_input bindE_def)
  have body: "triposr_body E event st =
      triposr_run E (dict_get d ''image'' PNone)
        (if flt_lt fr lit_0_5 \<or> flt_gt fr lit_1_0 then lit_0_85 else fr) r f st"
    using par img by (simp add: triposr_body_def r_def f_def)
  have gen: "generate_mesh E processed r st =
      (bindE (tsr_extract_mesh E tsr codes True r) (\<lambda>meshes.
         case meshes of
           [] \<Rightarrow> Inl (PyExn OtherException ''list index out of range'')
         | mesh # _ \<Rightarrow> Inr mesh), st')"
    using lod cod by (simp add: generate_mesh_def bindE_def)
  have "triposr_body E event st =
      (bindE (tsr_extract_mesh E tsr codes True r) (\<lambda>meshes.
        bindE (case meshes of
                 [] \<Rightarrow> Inl (PyExn OtherException ''list index out of range'')
               | mesh # _ \<Rightarrow> Inr mesh) (\<lambda>mesh.
        bindE (tsr_count_vertices E mesh) (\<lambda>vertices.
        bindE (tsr_count_faces E mesh) (\<lambda>faces.
        bindE (export_mesh E mesh f) (\<lambda>(output_path, mesh_data).
        bindE (os_remove E output_path) (\<lambda>_.
          Inr (triposr_response mesh_data vertices faces f (elapsed E)))))))),
        st')"
    unfolding body
    using opn pre gen
    by (simp add: triposr_run_def bindE_def split: sum.splits list.splits)
  then show ?thesis
    unfolding r_def f_def by (simp add: triposr_handler_def)
qed

theorem triposr_mc_resolution_reaches_extract_mesh_witness:
  "triposr_handler demo_triposr
     (request [(''image'', PStr sample_png), (''mc_resolution'', PInt 300)]) triposr_init =
   ([(''model_base64'', PStr ''Z2xURg==''), (''file_size'', PInt 4),
     (''vertices'', PInt (256 * 256)), (''faces'', PInt (2 * 256 * 256)),
     (''format'', PStr ''glb''), (''execution_time'', PFloat (Finite (5 / 4)))],
    \<lparr>tsr_model = Some 1\<rparr>)
   \<and> triposr_handler demo_triposr
     (request [(''image'', PStr sample_png), (''mc_resolution'', PInt 512)]) triposr_init =
   ([(''model_base64'', PStr ''Z2xURg==''), (''file_size'', PInt 4),
     (''vertices'', PInt (512 * 512)), (''faces'', PInt (2 * 512 * 512)),
     (''format'', PStr ''glb''), (''execution_time'', PFloat (Finite (5 / 4)))],
    \<lparr>tsr_model = Some 1\<rparr>)"
proof -
  have w1: "triposr_handler demo_triposr
     (request [(''image'', PStr sample_png), (''mc_resolution'', PInt 300)]) triposr_init =
   ([(''model_base64'', PStr ''Z2xURg==''), (''file_size'', PInt 4),
     (''vertices'', PInt (256 * 256)), (''faces'', PInt (2 * 256 * 256)),
     (''format'', PStr ''glb''), (''execution_time'', PFloat (Finite (5 / 4)))],
    \<lparr>tsr_model = Some 1\<rparr>)"
    using triposr_mc_resolution_reaches_extract_mesh
      [where event = "request [(''image'', PStr sample_png), (''mc_resolution'', PInt 300)]"
         and d = "[(''image'', PStr sample_png), (''mc_resolution'', PInt 300)]"
         and E = demo_triposr and fr = lit_0_85 and mc = 300 and fmt = "''glb''"
         and ?img1.0 = "(1, 1)" and processed = "(1, 1)" and st = triposr_init
         and tsr = 1 and st' = "\<lparr>tsr_model = Some 1\<rparr>" and codes = "()"]
    by (simp add: demo_defs base_defs preprocess_image_def triposr_load_model_def
          export_mesh_def triposr_response_def)
  have w2: "triposr_handler demo_triposr
     (request [(''image'', PStr sample_png), (''mc_resolution'', PInt 512)]) triposr_init =
   ([(''model_base64'', PStr ''Z2xURg==''), (''file_size'', PInt 4),
     (''vertices'', PInt (512 * 512)), (''faces'', PInt (2 * 512 * 512)),
     (''format'', PStr ''glb''), (''execution_time'', PFloat (Finite (5 / 4)))],
    \<lparr>tsr_model = Some 1\<rparr>)"
    using triposr_mc_resolution_reaches_extract_mesh
      [where event = "request [(''image'', PStr sample_png), (''mc_resolution'', PInt 512)]"
         and d = "[(''image'', PStr sample_png), (''mc_resolution'', PInt 512)]"
         and E = demo_triposr and fr = lit_0_85 and mc = 512 and fmt = "''glb''"
         and ?img1.0 = "(1, 1)" and processed = "(1, 1)" and st = triposr_init
         and tsr = 1 and st' = "\<lparr>tsr_model = Some 1\<rparr>" and codes = "()"]
    by (simp add: demo_defs base_defs preprocess_image_def triposr_load_model_def
          export_mesh_def triposr_response_def)
  from w1 w2 show ?thesis by simp
qed







text \<open>
  The response of line 213 onwards, for an export of 5 MiB or more.
\<close>

lemma triposr_response_large:
  assumes "5 * 1024 * 1024 \<le> int (length data)"
  shows "triposr_response data v f fmt t =
     [(''model_base64'', PStr (b64encode data)), (''file_size'', PInt (int (length data))),
      (''vertices'', PInt v), (''faces'', PInt f), (''format'', PStr fmt),
      (''execution_time'', PFloat t),
      (''warning'', PStr ''Large file returned as base64. Consider using S3 for production.'')]"
  using assms by (simp add: triposr_response_def Let_def)

text \<open>
  C5 does not hold of the code: no response of the TripoSR handler has a \<open>model_url\<close>
  field, whatever the request and the size of the export. For an export of
  5242881 bytes the response carries the file in \<open>model_base64\<close>, with a \<open>warning\<close>.
\<close>

theorem triposr_large_file_has_no_model_url:
  "map_of (fst (triposr_handler E event st)) ''model_url'' = None
   \<and> triposr_response (replicate 5242881 0) v f fmt t =
     [(''model_base64'', PStr (b64encode (replicate 5242881 0))),
      (''file_size'', PInt 5242881),
      (''vertices'', PInt v), (''faces'', PInt f), (''format'', PStr fmt),
      (''execution_time'', PFloat t),
      (''warning'', PStr ''Large file returned as base64. Consider using S3 for production.'')]"
proof
  from triposr_handler_response [of E event st]
  show "map_of (fst (triposr_handler E event st)) ''model_url'' = None"
  proof (elim disjE exE conjE)
    fix msg
    assume "fst (triposr_handler E event st) = [(''error'', PStr msg)]"
    then show ?thesis by simp
  next
    fix mesh path ft data vs fs fm
    assume "fst (triposr_handler E event st) = triposr_response data vs fs fm (elapsed E)"
    then show ?thesis by (simp add: triposr_response_def Let_def)
  qed
next
  have len: "int (length (replicate 5242881 (0 :: byte))) = 5242881"
    by simp
  then have "5 * 1024 * 1024 \<le> int (length (replicate 5242881 (0 :: byte)))"
    by simp
  from triposr_response_large [OF this, of v f fmt t] len
  show "triposr_response (replicate 5242881 0) v f fmt t =
     [(''model_base64'', PStr (b64encode (replicate 5242881 0))),
      (''file_size'', PInt 5242881),
      (''vertices'', PInt v), (''faces'', PInt f), (''format'', PStr fmt),
      (''execution_time'', PFloat t),
      (''warning'', PStr ''Large file returned as base64. Consider using S3 for production.'')]"
    by simp
qed

text \<open>
  C6 does not hold of the code: line 159 clamps \<open>texture_resolution\<close> to the range from
  512 to 2048 and keeps every value in between. For every request to the SF3D handler
  whose run gets as far as the model (the options convert, the image opens, its
  background is removed, it is resized and the model loads), \<open>run_image\<close> is called
  with \<open>bake_resolution = max(512, min(2048, texture_resolution))\<close>, and a response
  with the model echoes that value. For \<open>texture_resolution = 1000\<close> this is 1000,
  which is none of 512, 1024 and 2048.
\<close>

theorem texture_resolution_is_clamped_to_a_range:
  assumes inp: "py_get event ''input'' (PDict []) = Inr (PDict d)"
    and img: "truthy (dict_get d ''image'' PNone)"
    and flt: "py_float E (dict_get d ''foreground_ratio'' (PFloat lit_0_85)) = Inr fr"
    and res: "py_int E (dict_get d ''texture_resolution'' (PInt 1024)) = Inr tr"
    and low: "py_lower (dict_get d ''remesh_option'' (PStr ''none'')) = Inr ro"
    and opn: "sf_open_image E (dict_get d ''image'' PNone) = Inr img1"
    and rbg: "sf3d_remove_background E img1 st = (Inr img2, st1)"
    and rsz: "sf3d_resize_foreground E img2
                (if flt_lt fr lit_0_5 \<or> flt_gt fr lit_1_0 then lit_0_85 else fr) = Inr img3"
    and lod: "sf3d_load_model E st1 = (Inr sf3d, st2)"
  shows "sf3d_handler E event st =
     catch_with sf3d_except
       (bindE (sf_run_image E sf3d img3 (max 512 (min 2048 tr))
                 (if ro = ''triangle'' \<or> ro = ''quad'' then Some ro else None)) (\<lambda>mesh.
        bindE (mkstemp E ''.glb'') (\<lambda>output_path.
        bindE (sf_mesh_export E mesh output_path) (\<lambda>mesh_data.
        bindE (os_remove E output_path) (\<lambda>_.
          Inr (sf3d_response mesh_data (max 512 (min 2048 tr)) (elapsed E)))))),
        st2)
     \<and> map_of (sf3d_response mesh_data (max 512 (min 2048 tr)) t) ''texture_resolution'' =
         Some (PInt (max 512 (min 2048 tr)))
     \<and> max 512 (min 2048 (1000 :: int)) = 1000
     \<and> (1000 :: int) \<notin> {512, 1024, 2048}"
proof (intro conjI)
  define r where "r = max 512 (min 2048 tr)"
  define m where "m = (if ro = ''triangle'' \<or> ro = ''quad'' then Some ro else None)"
  have par: "sf3d_params E event = Inr (dict_get d ''image'' PNone, fr, tr, ro)"
    using inp flt res low by (simp add: sf3d_params_of_input bindE_def)
  have body: "sf3d_body E event st =
      sf3d_run E (dict_get d ''image'' PNone)
        (if flt_lt fr lit_0_5 \<or> flt_gt fr lit_1_0 then lit_0_85 else fr) r
        (if ro \<notin> set [''none'', ''triangle'', ''quad''] then ''none'' else ro) st"
    using par img by (simp add: sf3d_body_def r_def)
  have "sf3d_body E event st =
      (bindE (sf_run_image E sf3d img3 r m) (\<lambda>mesh.
        bindE (mkstemp E ''.glb'') (\<lambda>output_path.
        bindE (sf_mesh_export E mesh output_path) (\<lambda>mesh_data.
        bindE (os_remove E output_path) (\<lambda>_.
          Inr (sf3d_response mesh_data r (elapsed E)))))),
        st2)"
    unfolding body
    using opn rbg rsz lod by (auto simp: sf3d_run_def m_def)
  then show "sf3d_handler E event st =
     catch_with sf3d_except
       (bindE (sf_run_image E sf3d img3 (max 512 (min 2048 tr))
                 (if ro = ''triangle'' \<or> ro = ''quad'' then Some ro else None)) (\<lambda>mesh.
        bindE (mkstemp E ''.glb'') (\<lambda>output_path.
        bindE (sf_mesh_export E mesh output_path) (\<lambda>mesh_data.
        bindE (os_remove E output_path) (\<lambda>_.
          Inr (sf3d_response mesh_data (max 512 (min 2048 tr)) (elapsed E)))))),
        st2)"
    unfolding r_def m_def by (simp add: sf3d_handler_def)
qed (simp_all add: sf3d_response_def)

theorem texture_resolution_is_clamped_to_a_range_witness:
  "sf3d_handler demo_sf3d
     (request [(''image'', PStr sample_png), (''texture_resolution'', PInt 1000)]) sf3d_init =
   ([(''model_base64'', PStr ''Z2xURg==''), (''file_size'', PInt 4), (''format'', PStr ''glb''),
     (''texture_resolution'', PInt 1000), (''execution_time'', PFloat (Finite (5 / 4)))],
    \<lparr>sf_model = Some 1, sf_rembg_session = Some 2, sf_imported = True\<rparr>)"
  using texture_resolution_is_clamped_to_a_range
    [where event = "request [(''image'', PStr sample_png), (''texture_resolution'', PInt 1000)]"
       and d = "[(''image'', PStr sample_png), (''texture_resolution'', PInt 1000)]"
       and E = demo_sf3d and fr = lit_0_85 and tr = 1000 and ro = "''none''"
       and ?img1.0 = "(1, 1)" and ?img2.0 = "(1, 1)" and ?img3.0 = "(1, 1)"
       and st = sf3d_init
       and ?st1.0 = "\<lparr>sf_model = None, sf_rembg_session = Some 2, sf_imported = True\<rparr>"
       and sf3d = 1
       and ?st2.0 = "\<lparr>sf_model = Some 1, sf_rembg_session = Some 2, sf_imported = True\<rparr>",
     THEN conjunct1]
  by (simp add: demo_defs base_defs sf3d_remove_background_def sf3d_lazy_import_def
        sf3d_resize_foreground_def sf3d_load_model_def sf3d_response_def sf3d_except_def)



text \<open>
  C8. The model handle is loaded lazily and at most once, in the TripoSR and in the SF3D
  module. With the global set, \<open>load_model\<close> returns it and leaves the globals as they
  are (for SF3D: once the imports are done, which they are whenever the global is set,
  last conjunct); after a call that returned a handle, any further call returns the same
  handle and changes nothing, so two calls are one; and no run of \<open>load_model\<close> or of
  the handler takes a handle away: a TripoSR handler run with the model loaded leaves
  the globals unchanged, an SF3D one keeps \<open>model\<close>.
\<close>

theorem model_loaded_at_most_once:
  "(tsr_model st = Some m \<longrightarrow> triposr_load_model E st = (Inr m, st))
   \<and> (triposr_load_model E st = (Inr m, st') \<longrightarrow>
        tsr_model st' = Some m \<and> triposr_load_model E' st' = (Inr m, st'))
   \<and> (tsr_model st = Some m \<longrightarrow> snd (triposr_handler E event st) = st)
   \<and> (sf_model s = Some k \<and> sf_imported s \<longrightarrow> sf3d_load_model F s = (Inr k, s))
   \<and> (sf3d_load_model F s = (Inr k, s') \<longrightarrow>
        sf_model s' = Some k \<and> sf_imported s' \<and> sf3d_load_model F' s' = (Inr k, s'))
   \<and> (sf_model s = Some k \<longrightarrow>
        sf_model (snd (sf3d_load_model F s)) = Some k \<and>
        sf_model (snd (sf3d_handler F event s)) = Some k)
   \<and> ((sf_model s \<noteq> None \<longrightarrow> sf_imported s) \<longrightarrow>
        (sf_model (snd (sf3d_handler F event s)) \<noteq> None \<longrightarrow>
         sf_imported (snd (sf3d_handler F event s))))"
proof (intro conjI impI)
  assume "tsr_model st = Some m"
  then show "triposr_load_model E st = (Inr m, st)"
    by (rule triposr_load_model_loaded)
next
  assume a: "triposr_load_model E st = (Inr m, st')"
  then show "tsr_model st' = Some m"
    by (rule triposr_load_model_result)
  then show "triposr_load_model E' st' = (Inr m, st')"
    by (rule triposr_load_model_loaded)
next
  assume "tsr_model st = Some m"
  then show "snd (triposr_handler E event st) = st"
    by (rule triposr_handler_loaded)
next
  assume "sf_model s = Some k \<and> sf_imported s"
  then show "sf3d_load_model F s = (Inr k, s)"
    by (simp add: sf3d_load_model_loaded)
next
  assume a: "sf3d_load_model F s = (Inr k, s')"
  from sf3d_load_model_result [OF a] show "sf_model s' = Some k" and "sf_imported s'"
    by simp_all
  then show "sf3d_load_model F' s' = (Inr k, s')"
    by (rule sf3d_load_model_loaded)
next
  assume a: "sf_model s = Some k"
  then show "sf_model (snd (sf3d_load_model F s)) = Some k"
    by (rule sf3d_load_model_keeps)
  from a show "sf_model (snd (sf3d_handler F event s)) = Some k"
    by (rule sf3d_handler_keeps)
next
  assume a: "sf_model s \<noteq> None \<longrightarrow> sf_imported s"
    and b: "sf_model (snd (sf3d_handler F event s)) \<noteq> None"
  from sf3d_handler_inv [OF a, of F event] b
  show "sf_imported (snd (sf3d_handler F event s))"
    by simp
qed

theorem model_loaded_at_most_once_witness:
  "triposr_load_model demo_triposr triposr_init = (Inr 1, \<lparr>tsr_model = Some 1\<rparr>)
   \<and> triposr_load_model demo_triposr_oom \<lparr>tsr_model = Some 1\<rparr> =
       (Inr 1, \<lparr>tsr_model = Some 1\<rparr>)
   \<and> snd (triposr_handler demo_triposr (request [(''image'', PStr sample_png)])
            \<lparr>tsr_model = Some 1\<rparr>) = \<lparr>tsr_model = Some 1\<rparr>
   \<and> sf3d_load_model demo_sf3d sf3d_init =
       (Inr 1, \<lparr>sf_model = Some 1, sf_rembg_session = Some 2, sf_imported = True\<rparr>)
   \<and> sf3d_load_model demo_sf3d
         \<lparr>sf_model = Some 1, sf_rembg_session = Some 2, sf_imported = True\<rparr> =
       (Inr 1, \<lparr>sf_model = Some 1, sf_rembg_session = Some 2, sf_imported = True\<rparr>)
   \<and> sf_model (snd (sf3d_handler demo_sf3d (request [(''image'', PStr sample_png)])
         \<lparr>sf_model = Some 1, sf_rembg_session = None, sf_imported = True\<rparr>)) = Some 1"
proof -
  have l1: "triposr_load_model demo_triposr triposr_init = (Inr 1, \<lparr>tsr_model = Some 1\<rparr>)"
    by (simp add: triposr_load_model_def demo_triposr_def triposr_init_def bindE_def)
  have l2: "triposr_load_model demo_triposr_oom \<lparr>tsr_model = Some 1\<rparr> =
      (Inr 1, \<lparr>tsr_model = Some 1\<rparr>)"
    using model_loaded_at_most_once
      [where E = demo_triposr and st = triposr_init and m = 1
         and st' = "\<lparr>tsr_model = Some 1\<rparr>" and E' = demo_triposr_oom,
       THEN conjunct2, THEN conjunct1] l1
    by simp
  have l3: "snd (triposr_handler demo_triposr (request [(''image'', PStr sample_png)])
            \<lparr>tsr_model = Some 1\<rparr>) = \<lparr>tsr_model = Some 1\<rparr>"
    using model_loaded_at_most_once
      [where st = "\<lparr>tsr_model = Some (1::nat)\<rparr>" and m = 1 and E = demo_triposr
         and event = "request [(''image'', PStr sample_png)]",
       THEN conjunct2, THEN conjunct2, THEN conjunct1]
    by simp
  have l4: "sf3d_load_model demo_sf3d sf3d_init =
      (Inr 1, \<lparr>sf_model = Some 1, sf_rembg_session = Some 2, sf_imported = True\<rparr>)"
    by (simp add: sf3d_load_model_def sf3d_lazy_import_def demo_sf3d_def sf3d_init_def
          bindE_def)
  have l5: "sf3d_load_model demo_sf3d
         \<lparr>sf_model = Some 1, sf_rembg_session = Some 2, sf_imported = True\<rparr> =
       (Inr 1, \<lparr>sf_model = Some 1, sf_rembg_session = Some 2, sf_imported = True\<rparr>)"
    using model_loaded_at_most_once
      [where F = demo_sf3d and s = sf3d_init and k = 1 and F' = demo_sf3d
         and s' = "\<lparr>sf_model = Some 1, sf_rembg_session = Some 2, sf_imported = True\<rparr>",
       THEN conjunct2, THEN conjunct2, THEN conjunct2, THEN conjunct2, THEN conjunct1] l4
    by simp
  have l6: "sf_model (snd (sf3d_handler demo_sf3d (request [(''image'', PStr sample_png)])
         \<lparr>sf_model = Some 1, sf_rembg_session = None, sf_imported = True\<rparr>)) = Some 1"
    using model_loaded_at_most_once
      [where s = "\<lparr>sf_model = Some (1::nat), sf_rembg_session = None :: nat option,
                    sf_imported = True\<rparr>" and k = 1 and F = demo_sf3d
         and event = "request [(''image'', PStr sample_png)]",
       THEN conjunct2, THEN conjunct2, THEN conjunct2, THEN conjunct2, THEN conjunct2,
       THEN conjunct1]
    by simp
  from l1 l2 l3 l4 l5 l6 show ?thesis by simp
qed



text \<open>
  C10. In the TripoSR handler the conversions of lines 141 and 142 come before the image
  check of line 146. When \<open>foreground_ratio\<close> is present and \<open>float\<close> raises on it, the
  response is \<open>{"error": "Generation failed: " + str(e)}\<close> for that exception; when
  \<open>mc_resolution\<close> is present and \<open>int\<close> raises on it, the response is the same kind
  of error, for the exception of \<open>float\<close> if that raised first and for the one of \<open>int\<close>
  otherwise. Nothing is assumed of \<open>image\<close>: also when it is missing, the response is
  not the "No image provided" error, and the pipeline does not run.
\<close>

theorem triposr_conversion_precedes_image_check:
  assumes "py_get event ''input'' (PDict []) = Inr (PDict d)"
  shows "(map_of d ''foreground_ratio'' = Some v \<and> py_float E v = Inl e \<longrightarrow>
            triposr_handler E event st =
              ([(''error'', PStr (''Generation failed: '' @ exn_str e))], st))
       \<and> (map_of d ''mc_resolution'' = Some w \<and> py_int E w = Inl e' \<longrightarrow>
            triposr_handler E event st =
              ([(''error'',
                 PStr (''Generation failed: '' @
                   (case py_float E (dict_get d ''foreground_ratio'' (PFloat lit_0_85)) of
                      Inl e0 \<Rightarrow> exn_str e0
                    | Inr fr \<Rightarrow> exn_str e')))], st))
       \<and> [(''error'', PStr (''Generation failed: '' @ msg))] \<noteq> no_image_error"
proof (intro conjI impI)
  assume a: "map_of d ''foreground_ratio'' = Some v \<and> py_float E v = Inl e"
  then have "triposr_params E event = Inl e"
    using assms by (simp add: triposr_params_of_input bindE_def dict_get_def)
  moreover from a have "exn_cls e = OtherException"
    using py_float_class by blast
  ultimately show "triposr_handler E event st =
      ([(''error'', PStr (''Generation failed: '' @ exn_str e))], st)"
    by (simp add: triposr_handler_def triposr_body_def catch_with_def triposr_except_def)
next
  assume b: "map_of d ''mc_resolution'' = Some w \<and> py_int E w = Inl e'"
  then have cls: "exn_cls e' = OtherException"
    using py_int_class by blast
  show "triposr_handler E event st =
      ([(''error'',
         PStr (''Generation failed: '' @
           (case py_float E (dict_get d ''foreground_ratio'' (PFloat lit_0_85)) of
              Inl e0 \<Rightarrow> exn_str e0
            | Inr fr \<Rightarrow> exn_str e')))], st)"
  proof (cases "py_float E (dict_get d ''foreground_ratio'' (PFloat lit_0_85))")
    case (Inl e0)
    then have "triposr_params E event = Inl e0"
      using assms by (simp add: triposr_params_of_input bindE_def)
    moreover from Inl have "exn_cls e0 = OtherException"
      using py_float_class by blast
    ultimately show ?thesis
      using Inl
      by (simp add: triposr_handler_def triposr_body_def catch_with_def triposr_except_def)
  next
    case (Inr fr)
    then have "triposr_params E event = Inl e'"
      using assms b by (simp add: triposr_params_of_input bindE_def dict_get_def)
    with cls Inr show ?thesis
      by (simp add: triposr_handler_def triposr_body_def catch_with_def triposr_except_def)
  qed
next
  show "[(''error'', PStr (''Generation failed: '' @ msg))] \<noteq> no_image_error"
    by (simp add: no_image_error_def)
qed

theorem triposr_conversion_precedes_image_check_witness:
  "triposr_handler demo_triposr (request [(''foreground_ratio'', PList [])]) triposr_init =
     ([(''error'',
        PStr (''Generation failed: float() argument must be a string or a real number, not 'list'' @
              [CHR 0x27]))],
      triposr_init)
   \<and> triposr_handler demo_triposr (request [(''mc_resolution'', PStr ''high'')]) triposr_init =
     ([(''error'',
        PStr (''Generation failed: invalid literal for int() with base 10: 'high'' @
              [CHR 0x27]))],
      triposr_init)"
  using
    triposr_conversion_precedes_image_check
      [where event = "request [(''foreground_ratio'', PList [])]"
         and d = "[(''foreground_ratio'', PList [])]" and v = "PList []" and E = demo_triposr
         and e = "PyExn OtherException
                    (''float() argument must be a string or a real number, not 'list'' @
                     [CHR 0x27])"
         and st = triposr_init]
    triposr_conversion_precedes_image_check
      [where event = "request [(''mc_resolution'', PStr ''high'')]"
         and d = "[(''mc_resolution'', PStr ''high'')]" and w = "PStr ''high''"
         and E = demo_triposr
         and e' = "PyExn OtherException
                     (''invalid literal for int() with base 10: 'high'' @ [CHR 0x27])"
         and st = triposr_init]
  by (simp add: request_def dict_get_def demo_triposr_def demo_float_conv_def demo_int_conv_def
        conv_result_def lit_0_85_def)

end
